theory Spec2Isabelle
  imports Complex_Main "HOL-Library.Sublist"
begin

section \<open>Tables, cells and Python values\<close>

text \<open>
  The dashboard keeps its data in a pandas DataFrame.  A table is modelled by its list of
  column names and its list of rows, in order; a row gives a cell for every column name.
  A cell is a missing value (\<open>NA\<close>: pandas' NA, NaN or NaT), a nullable integer (the
  Int64 columns of \<open>type_mapping\<close> in data.py), a string, a timestamp or a boolean.
  Column operations are evaluated cell by cell, as pandas does for the typed columns of
  the loader (a column of one type) and for object columns.  Integers are unbounded and
  are compared exactly with the coerced bounds, which agrees with pandas for magnitudes
  up to \<open>2^53\<close>.
\<close>

type_synonym timestamp = int
  \<comment> \<open>nanoseconds since the epoch, the representation of datetime64[ns]\<close>

datatype cell = NA | CInt int | CStr string | CTime timestamp | CBool bool

type_synonym row = "string \<Rightarrow> cell"

record table =
  columns :: "string list"
  rows :: "row list"

datatype exn = KeyError | TypeError | ValueError | FileNotFoundError | OtherError

text \<open>
  The values a filter can hold (\<open>**filters\<close> is a dictionary from names to values that
  arrive as JSON): None, a number, a string, or a list of integers and strings.
\<close>

datatype scalar = SInt int | SStr string

datatype pyval = PNone | PInt int | PFloat rat | PStr string | PList "scalar list"

type_synonym filters = "string \<rightharpoonup> pyval"

datatype pyfloat = Finite rat | PosInf | NegInf | NaN

datatype parsed = Stamp "timestamp option" | Stamps "timestamp option list"
  \<comment> \<open>what \<open>pd.to_datetime\<close> returns: one timestamp (or NaT, here \<open>None\<close>) for a
      scalar, a DatetimeIndex with one entry per element for a list\<close>

text \<open>
  The library functions that \<open>filter_data\<close> calls on a filter value are parameters of
  the model: \<open>float(v)\<close>, \<open>pd.to_datetime(v)\<close> and
  \<open>datetime.fromisoformat(v)\<close>.  Each either returns or raises; an
  exception of a subclass of ValueError or TypeError is given as that class.  A
  timezone-aware result, whose comparison with the naive date column raises TypeError inside
  the same \<open>try\<close> block, is given as \<open>Inl TypeError\<close>.  Every statement below
  holds for all such functions.
\<close>

record pylib =
  py_float :: "pyval \<Rightarrow> exn + pyfloat"
  to_datetime :: "pyval \<Rightarrow> exn + parsed"
  fromisoformat :: "pyval \<Rightarrow> exn + timestamp"

datatype log_entry = Debug string | Warning string
  \<comment> \<open>level and format string of a logger call; the interpolated arguments are left out\<close>

section \<open>DataFrame operations\<close>

definition getitem :: "table \<Rightarrow> string \<Rightarrow> exn + cell list" where
  \<comment> \<open>\<open>df[c]\<close>: the column, or KeyError\<close>
  "getitem df c =
     (if c \<in> set (columns df) then Inr (map (\<lambda>r. r c) (rows df)) else Inl KeyError)"

definition take_rows :: "bool option list \<Rightarrow> table \<Rightarrow> table" where
  \<comment> \<open>\<open>df[m]\<close>: boolean indexing keeps the rows whose entry in \<open>m\<close> is True; a
      missing entry of a nullable boolean array counts as False\<close>
  "take_rows msk df =
     df\<lparr>rows := map fst (filter (\<lambda>(r, m). m = Some True) (zip (rows df) msk))\<rparr>"

definition copy :: "table \<Rightarrow> table" where
  \<comment> \<open>\<open>df.copy()\<close>: a new object with the same contents\<close>
  "copy df = df"

fun isin_cell :: "scalar list \<Rightarrow> cell \<Rightarrow> bool" where
  "isin_cell vs NA = False"
| "isin_cell vs (CInt n) = (SInt n \<in> set vs)"
| "isin_cell vs (CStr s) = (SStr s \<in> set vs)"
| "isin_cell vs (CTime t) = False"
| "isin_cell vs (CBool b) = (SInt (if b then 1 else 0) \<in> set vs)"

definition isin :: "cell list \<Rightarrow> pyval \<Rightarrow> exn + bool option list" where
  \<comment> \<open>\<open>Series.isin(values)\<close>: a cell matches an equal value of its own kind (an
      integer never matches a string, a boolean counts as 0 or 1), a missing cell matches
      nothing, and a value that is not list-like raises TypeError.  A timestamp is
      matched as in an object column, where it equals no string and no integer; for a
      column of dtype datetime64, which the loader makes of the date column only, pandas
      parses the strings first\<close>
  "isin cells v =
     (case v of
        PList vs \<Rightarrow> Inr (map (\<lambda>c. Some (isin_cell vs c)) cells)
      | _ \<Rightarrow> Inl TypeError)"

definition py_len :: "pyval \<Rightarrow> exn + nat" where
  "py_len v =
     (case v of
        PList vs \<Rightarrow> Inr (length vs)
      | PStr s \<Rightarrow> Inr (length s)
      | _ \<Rightarrow> Inl TypeError)"

definition py_contains :: "pyval \<Rightarrow> string \<Rightarrow> exn + bool" where
  \<comment> \<open>\<open>s in v\<close>: membership in a list, substring test in a string\<close>
  "py_contains v s =
     (case v of
        PList vs \<Rightarrow> Inr (SStr s \<in> set vs)
      | PStr t \<Rightarrow> Inr (sublist s t)
      | _ \<Rightarrow> Inl TypeError)"

definition selects :: "pyval \<Rightarrow> exn + bool" where
  \<comment> \<open>\<open>len(v) > 0 and "all" not in v\<close>\<close>
  "selects v =
     (case py_len v of
        Inl e \<Rightarrow> Inl e
      | Inr n \<Rightarrow>
          if n > 0 then
            (case py_contains v ''all'' of Inl e \<Rightarrow> Inl e | Inr b \<Rightarrow> Inr (\<not> b))
          else Inr False)"

fun comparable_num :: "cell \<Rightarrow> bool" where
  "comparable_num (CStr s) = False"
| "comparable_num (CTime t) = False"
| "comparable_num c = True"

fun float_ge :: "rat \<Rightarrow> pyfloat \<Rightarrow> bool" where
  "float_ge x (Finite r) = (x \<ge> r)"
| "float_ge x PosInf = False"
| "float_ge x NegInf = True"
| "float_ge x NaN = False"

fun float_le :: "rat \<Rightarrow> pyfloat \<Rightarrow> bool" where
  "float_le x (Finite r) = (x \<le> r)"
| "float_le x PosInf = True"
| "float_le x NegInf = False"
| "float_le x NaN = False"

fun cmp_num_cell :: "(rat \<Rightarrow> pyfloat \<Rightarrow> bool) \<Rightarrow> pyfloat \<Rightarrow> cell \<Rightarrow> bool option" where
  "cmp_num_cell ord x (CInt n) = Some (ord (of_int n) x)"
| "cmp_num_cell ord x (CBool b) = Some (ord (if b then 1 else 0) x)"
| "cmp_num_cell ord x c = None"

definition compare_float ::
  "(rat \<Rightarrow> pyfloat \<Rightarrow> bool) \<Rightarrow> cell list \<Rightarrow> pyfloat \<Rightarrow> exn + bool option list" where
  \<comment> \<open>\<open>column >= x\<close> or \<open>column <= x\<close> for a float \<open>x\<close>: a string or a timestamp cannot
      be ordered against a number (TypeError); a missing cell gives a missing entry\<close>
  "compare_float ord cells x =
     (if list_all comparable_num cells then Inr (map (cmp_num_cell ord x) cells)
      else Inl TypeError)"

fun comparable_time :: "cell \<Rightarrow> bool" where
  "comparable_time NA = True"
| "comparable_time (CTime t) = True"
| "comparable_time c = False"

fun cmp_time_cell ::
  "(timestamp \<Rightarrow> timestamp \<Rightarrow> bool) \<Rightarrow> timestamp option \<Rightarrow> cell \<Rightarrow> bool option" where
  "cmp_time_cell ord (Some b) (CTime t) = Some (ord t b)"
| "cmp_time_cell ord b c = Some False"

definition compare_time ::
  "(timestamp \<Rightarrow> timestamp \<Rightarrow> bool) \<Rightarrow> cell list \<Rightarrow> parsed \<Rightarrow> exn + bool option list" where
  \<comment> \<open>\<open>column >= t\<close> or \<open>column <= t\<close>.  For one timestamp \<open>t\<close>: anything but a
      timestamp or a missing cell raises TypeError; NaT on either side compares False.
      For a DatetimeIndex: ValueError ("Lengths must match to compare") unless it has one
      entry per row, and then the comparison is entry by entry\<close>
  "compare_time ord cells p =
     (case p of
        Stamp b \<Rightarrow>
          if list_all comparable_time cells then Inr (map (cmp_time_cell ord b) cells)
          else Inl TypeError
      | Stamps bs \<Rightarrow>
          if length bs \<noteq> length cells then Inl ValueError
          else if list_all comparable_time cells
          then Inr (map (\<lambda>(c, b). cmp_time_cell ord b c) (zip cells bs))
          else Inl TypeError)"

section \<open>The filter pipeline (components/filter\_component.py)\<close>

definition multi_select :: "string \<Rightarrow> string \<Rightarrow> filters \<Rightarrow> table \<Rightarrow> exn + table" where
  \<comment> \<open>one multi-select block of \<open>filter_data\<close>:
      \<open>if len(filters[key]) > 0 and "all" not in filters[key]:
           df = df[df[col].isin(filters[key])]\<close>\<close>
  "multi_select key col F df =
     (case F key of
        None \<Rightarrow> Inl KeyError
      | Some v \<Rightarrow>
          (case selects v of
             Inl e \<Rightarrow> Inl e
           | Inr False \<Rightarrow> Inr df
           | Inr True \<Rightarrow>
               (case getitem df col of
                  Inl e \<Rightarrow> Inl e
                | Inr cells \<Rightarrow>
                    (case isin cells v of
                       Inl e \<Rightarrow> Inl e
                     | Inr msk \<Rightarrow> Inr (take_rows msk df)))))"

definition distance_bound ::
  "pylib \<Rightarrow> string \<Rightarrow> (rat \<Rightarrow> pyfloat \<Rightarrow> bool) \<Rightarrow> filters \<Rightarrow> table \<Rightarrow> exn + table" where
  \<comment> \<open>\<open>df = df[df["distance"] >= float(filters[key])]\<close>, and the same with \<open><=\<close>\<close>
  "distance_bound L key ord F df =
     (case getitem df ''distance'' of
        Inl e \<Rightarrow> Inl e
      | Inr cells \<Rightarrow>
          (case F key of
             None \<Rightarrow> Inl KeyError
           | Some v \<Rightarrow>
               (case py_float L v of
                  Inl e \<Rightarrow> Inl e
                | Inr x \<Rightarrow>
                    (case compare_float ord cells x of
                       Inl e \<Rightarrow> Inl e
                     | Inr msk \<Rightarrow> Inr (take_rows msk df)))))"

definition distance_filter :: "pylib \<Rightarrow> filters \<Rightarrow> table \<Rightarrow> exn + table" where
  "distance_filter L F df =
     (if ''distance'' \<in> set (columns df) then
        (case distance_bound L ''flight_distance_min'' float_ge F df of
           Inl e \<Rightarrow> Inl e
         | Inr df1 \<Rightarrow> distance_bound L ''flight_distance_max'' float_le F df1)
      else Inr df)"

definition date_attempt ::
  "(timestamp \<Rightarrow> timestamp \<Rightarrow> bool) \<Rightarrow> exn + parsed \<Rightarrow> table \<Rightarrow> exn + table" where
  \<comment> \<open>the body of one \<open>try\<close>: parse the bound, then \<open>df = df[df["date"] >= bound]\<close>\<close>
  "date_attempt ord parsed df =
     (case parsed of
        Inl e \<Rightarrow> Inl e
      | Inr b \<Rightarrow>
          (case getitem df ''date'' of
             Inl e \<Rightarrow> Inl e
           | Inr cells \<Rightarrow>
               (case compare_time ord cells b of
                  Inl e \<Rightarrow> Inl e
                | Inr msk \<Rightarrow> Inr (take_rows msk df))))"

definition caught :: "exn \<Rightarrow> bool" where
  \<comment> \<open>\<open>except (ValueError, TypeError)\<close>\<close>
  "caught e = (e = ValueError \<or> e = TypeError)"

definition date_filter ::
  "string \<Rightarrow> (timestamp \<Rightarrow> timestamp \<Rightarrow> bool) \<Rightarrow> string \<Rightarrow> pylib \<Rightarrow> filters \<Rightarrow> table
     \<Rightarrow> log_entry list \<times> (exn + table)" where
  \<comment> \<open>one date block: skipped for None; otherwise \<open>pd.to_datetime\<close>, on ValueError or
      TypeError \<open>datetime.fromisoformat\<close>, and on a second such error a warning and no
      restriction\<close>
  "date_filter key ord msg L F df =
     (case F key of
        None \<Rightarrow> ([], Inl KeyError)
      | Some v \<Rightarrow>
          if v = PNone then ([], Inr df)
          else
            (case date_attempt ord (to_datetime L v) df of
               Inr df' \<Rightarrow> ([], Inr df')
             | Inl e \<Rightarrow>
                 if caught e then
                   (case date_attempt ord (map_sum id (\<lambda>t. Stamp (Some t)) (fromisoformat L v)) df of
                      Inr df' \<Rightarrow> ([], Inr df')
                    | Inl e' \<Rightarrow>
                        if caught e' then ([Warning msg], Inr df) else ([], Inl e'))
                 else ([], Inl e)))"

definition then_do ::
  "log_entry list \<times> (exn + 'a) \<Rightarrow> ('a \<Rightarrow> log_entry list \<times> (exn + 'b))
     \<Rightarrow> log_entry list \<times> (exn + 'b)" where
  \<comment> \<open>sequencing of statements: an exception ends the function, the log written so far
      stays\<close>
  "then_do m f =
     (case snd m of
        Inl e \<Rightarrow> (fst m, Inl e)
      | Inr x \<Rightarrow> (fst m @ fst (f x), snd (f x)))"

definition quiet :: "exn + 'a \<Rightarrow> log_entry list \<times> (exn + 'a)" where
  "quiet r = ([], r)"

definition filter_data :: "pylib \<Rightarrow> table \<Rightarrow> filters \<Rightarrow> log_entry list \<times> (exn + table)" where
  "filter_data L df F =
     then_do ([Debug ''Starting data filtering. Original shape: %s'',
               Debug ''Applied filters: %s''], Inr (copy df)) (\<lambda>df.
     then_do (quiet (multi_select ''year'' ''year'' F df)) (\<lambda>df.
     then_do (quiet (multi_select ''airline'' ''airline_name'' F df)) (\<lambda>df.
     then_do (quiet (multi_select ''destination_airport'' ''dest'' F df)) (\<lambda>df.
     then_do (quiet (multi_select ''month'' ''month_name'' F df)) (\<lambda>df.
     then_do (quiet (multi_select ''day_of_week'' ''day_of_week'' F df)) (\<lambda>df.
     then_do (quiet (multi_select ''time_period'' ''time_period'' F df)) (\<lambda>df.
     then_do (quiet (multi_select ''delay_category'' ''delay_category'' F df)) (\<lambda>df.
     then_do (quiet (distance_filter L F df)) (\<lambda>df.
     then_do (date_filter ''date_start'' (\<ge>)
                ''Could not parse start_date filter: %s. Error: %s'' L F df) (\<lambda>df.
     then_do (date_filter ''date_end'' (\<le>)
                ''Could not parse end_date filter: %s. Error: %s'' L F df) (\<lambda>df.
     ([Debug ''Filtering complete. Final shape: %s'',
       Debug ''Filtered data sample:\<newline>%s''], Inr df))))))))))))"

section \<open>The loader (data.py)\<close>

text \<open>
  \<open>get_data\<close> reads the file with pandas and then converts and derives columns.  The two
  readers are parameters; they raise what pandas raises, FileNotFoundError for a path that
  does not exist.  \<open>read_csv\<close> is called with \<open>dtype=type_mapping\<close>, which makes the three
  flag columns nullable integers (Int64); \<open>read_parquet\<close> is called with no dtype, so the
  columns of a parquet file have the types stored in the file, and a flag column with a
  missing value may be a float64 or an object column.  The type matters to \<open>== 1\<close> on a
  missing value only, so a table does not carry it: \<open>dtype_of\<close> gives, for the table read
  and a column name, whether the column is a nullable one.  A whole number in a float64
  column is written \<open>CInt\<close>.  The parser behind \<open>pd.to_datetime(..., format='%Y-%m-%d')\<close> is
  a parameter too, taken one cell at a time: it gives a timestamp, NaT (\<open>None\<close>) or raises.
  The debug output of \<open>get_data\<close> is left out.
\<close>

datatype dtype = Nullable | Plain

record readers =
  read_csv :: "string \<Rightarrow> exn + table"
  read_parquet :: "string \<Rightarrow> exn + table"
  to_datetime_ymd :: "cell \<Rightarrow> exn + timestamp option"
  dtype_of :: "table \<Rightarrow> string \<Rightarrow> dtype"

fun convert_dates :: "(cell \<Rightarrow> exn + timestamp option) \<Rightarrow> cell list \<Rightarrow> exn + cell list" where
  "convert_dates p [] = Inr []"
| "convert_dates p (c # cs) =
     (case p c of
        Inl e \<Rightarrow> Inl e
      | Inr t \<Rightarrow>
          (case convert_dates p cs of
             Inl e \<Rightarrow> Inl e
           | Inr ts \<Rightarrow> Inr ((case t of None \<Rightarrow> NA | Some x \<Rightarrow> CTime x) # ts)))"

definition setitem :: "table \<Rightarrow> string \<Rightarrow> cell list \<Rightarrow> table" where
  \<comment> \<open>\<open>df[c] = values\<close>: replaces the column, or appends a new one\<close>
  "setitem df c vals =
     \<lparr>columns = (if c \<in> set (columns df) then columns df else columns df @ [c]),
      rows = map (\<lambda>(r, v). r(c := v)) (zip (rows df) vals)\<rparr>"

fun eq_one :: "dtype \<Rightarrow> cell \<Rightarrow> cell" where
  \<comment> \<open>one cell of \<open>column == 1\<close>: a missing value of a nullable column compares to
      missing (\<open>pd.NA == 1\<close>), a missing value of another column to False (\<open>NaN == 1\<close>)\<close>
  "eq_one Nullable NA = NA"
| "eq_one Plain NA = CBool False"
| "eq_one d (CInt n) = CBool (n = 1)"
| "eq_one d (CBool b) = CBool b"
| "eq_one d (CStr s) = CBool False"
| "eq_one d (CTime t) = CBool False"

definition flag_bool :: "dtype \<Rightarrow> string \<Rightarrow> string \<Rightarrow> table \<Rightarrow> exn + table" where
  \<comment> \<open>\<open>df[target] = df[flag] == 1\<close>, for a flag column of type \<open>d\<close>\<close>
  "flag_bool d target flag df =
     (case getitem df flag of
        Inl e \<Rightarrow> Inl e
      | Inr cells \<Rightarrow> Inr (setitem df target (map (eq_one d) cells)))"

definition dropna_all :: "table \<Rightarrow> table" where
  \<comment> \<open>\<open>df.dropna(how='all')\<close>: drops the rows in which every column is missing\<close>
  "dropna_all df = df\<lparr>rows := filter (\<lambda>r. list_ex (\<lambda>c. r c \<noteq> NA) (columns df)) (rows df)\<rparr>"

definition prepare :: "readers \<Rightarrow> table \<Rightarrow> exn + table" where
  \<comment> \<open>the statements of \<open>get_data\<close> after the file is read: the date conversion, the three
      boolean columns, and the removal of empty rows\<close>
  "prepare R df =
     (case getitem df ''date'' of
        Inl e \<Rightarrow> Inl e
      | Inr cells \<Rightarrow>
          (case convert_dates (to_datetime_ymd R) cells of
             Inl e \<Rightarrow> Inl e
           | Inr dates \<Rightarrow>
               (case flag_bool (dtype_of R df ''dep_delay_flag'')
                       ''dep_delay_flag_bool'' ''dep_delay_flag''
                       (setitem df ''date'' dates) of
                  Inl e \<Rightarrow> Inl e
                | Inr df1 \<Rightarrow>
                    (case flag_bool (dtype_of R df ''arr_delay_flag'')
                            ''arr_delay_flag_bool'' ''arr_delay_flag'' df1 of
                       Inl e \<Rightarrow> Inl e
                     | Inr df2 \<Rightarrow>
                         (case flag_bool (dtype_of R df ''on_time'')
                                 ''on_time_bool'' ''on_time'' df2 of
                            Inl e \<Rightarrow> Inl e
                          | Inr df3 \<Rightarrow> Inr (dropna_all df3))))))"

definition get_data :: "readers \<Rightarrow> string \<Rightarrow> exn + table" where
  "get_data R data_path =
     (case (if suffix ''.parquet'' data_path then read_parquet R data_path
            else read_csv R data_path) of
        Inl e \<Rightarrow> Inl e
      | Inr df \<Rightarrow> prepare R df)"

definition default_path :: string where
  "default_path = ''data/data.csv''"

section \<open>The consumers of the filtered table\<close>

text \<open>
  Every \<open>update\<close> callback under components/ has the same frame:
  \<^verbatim>\<open>
    try:
        df = filter_data(get_data(), **kwargs)
        if len(df) == 0:
            return <no data>
        ... aggregation ...
    except Exception as e:
        return <error>
  \<close>
  The frame is modelled once, with the value returned for an empty table, the value built
  in the handler and the aggregation as arguments.
\<close>

definition guarded_update ::
  "'o \<Rightarrow> (exn \<Rightarrow> 'o) \<Rightarrow> (table \<Rightarrow> filters \<Rightarrow> exn + 'o) \<Rightarrow> pylib \<Rightarrow> readers \<Rightarrow> filters \<Rightarrow> 'o" where
  "guarded_update no_data on_error aggregate L R kwargs =
     (case get_data R default_path of
        Inl e \<Rightarrow> on_error e
      | Inr df0 \<Rightarrow>
          (case snd (filter_data L df0 kwargs) of
             Inl e \<Rightarrow> on_error e
           | Inr df \<Rightarrow>
               if length (rows df) = 0 then no_data
               else (case aggregate df kwargs of Inl e \<Rightarrow> on_error e | Inr out \<Rightarrow> out)))"

subsection \<open>Data cards (components/data\_cards.py)\<close>

text \<open>
  A card shows a text, a number, a float that is not a number, or a missing value;
  numbers are given before the f-string formatting of the source.
\<close>

datatype card = Text string | Num rat | Not_a_number | Missing

fun num_values :: "cell \<Rightarrow> int list" where
  "num_values (CInt n) = [n]"
| "num_values (CBool b) = [if b then 1 else 0]"
| "num_values c = []"

definition numeric :: "cell list \<Rightarrow> exn + int list" where
  \<comment> \<open>the values a reduction sees: missing cells are skipped, strings and timestamps do
      not reduce with numbers\<close>
  "numeric cells =
     (if list_all comparable_num cells then Inr (concat (map num_values cells))
      else Inl TypeError)"

definition series_sum :: "cell list \<Rightarrow> exn + int" where
  "series_sum cells = (case numeric cells of Inl e \<Rightarrow> Inl e | Inr vs \<Rightarrow> Inr (sum_list vs))"

definition series_mean :: "cell list \<Rightarrow> exn + card" where
  "series_mean cells =
     (case numeric cells of
        Inl e \<Rightarrow> Inl e
      | Inr vs \<Rightarrow>
          if vs = [] then Inr Missing
          else Inr (Num (of_int (sum_list vs) / of_nat (length vs))))"

definition series_max :: "cell list \<Rightarrow> exn + card" where
  "series_max cells =
     (case numeric cells of
        Inl e \<Rightarrow> Inl e
      | Inr vs \<Rightarrow> if vs = [] then Inr Missing else Inr (Num (of_int (Max (set vs)))))"

definition on_time_rate :: "table \<Rightarrow> exn + pyfloat" where
  \<comment> \<open>\<open>(df["on_time"].sum() / len(df)) * 100\<close>.  The sum is a numpy integer, whose
      division by zero gives NaN; the callback reaches the division on a table with at
      least one row only\<close>
  "on_time_rate df =
     (case getitem df ''on_time'' of
        Inl e \<Rightarrow> Inl e
      | Inr cells \<Rightarrow>
          (case series_sum cells of
             Inl e \<Rightarrow> Inl e
           | Inr s \<Rightarrow>
               if length (rows df) = 0 then Inr NaN
               else Inr (Finite (of_int s / of_nat (length (rows df)) * 100))))"

fun float_card :: "pyfloat \<Rightarrow> card" where
  "float_card (Finite r) = Num r"
| "float_card x = Not_a_number"

definition card_metrics :: "table \<Rightarrow> filters \<Rightarrow> exn + card list" where
  "card_metrics df kwargs =
     (case getitem df ''arr_delay'' of
        Inl e \<Rightarrow> Inl e
      | Inr delays \<Rightarrow>
          (case series_mean delays of
             Inl e \<Rightarrow> Inl e
           | Inr avg_delay \<Rightarrow>
               (case on_time_rate df of
                  Inl e \<Rightarrow> Inl e
                | Inr rate \<Rightarrow>
                    (case getitem df ''distance'' of
                       Inl e \<Rightarrow> Inl e
                     | Inr distances \<Rightarrow>
                         (case series_mean distances of
                            Inl e \<Rightarrow> Inl e
                          | Inr avg_distance \<Rightarrow>
                              (case series_max delays of
                                 Inl e \<Rightarrow> Inl e
                               | Inr max_delay \<Rightarrow>
                                   Inr [Num (of_nat (length (rows df))), avg_delay, float_card rate,
                                        avg_distance, max_delay]))))))"

definition no_data_cards :: "card list" where
  "no_data_cards =
     [Text ''No Data'', Text ''No Data'', Text ''No Data'', Text ''No Data'', Text ''No Data'']"

definition error_cards :: "card list" where
  "error_cards = [Text ''Error'', Text ''Error'', Text ''Error'', Text ''Error'', Text ''Error'']"

definition data_cards_update :: "pylib \<Rightarrow> readers \<Rightarrow> filters \<Rightarrow> card list" where
  "data_cards_update = guarded_update no_data_cards (\<lambda>e. error_cards) card_metrics"

subsection \<open>Data table (components/data\_table.py)\<close>

text \<open>
  The callback returns the column definitions, the row data and a title.  What it builds
  for a table with rows is the argument \<open>grid\<close>.
\<close>

definition data_table_update ::
  "(table \<Rightarrow> filters \<Rightarrow> exn + 'c list \<times> 'r list \<times> string) \<Rightarrow> pylib \<Rightarrow> readers \<Rightarrow> filters
     \<Rightarrow> 'c list \<times> 'r list \<times> string" where
  "data_table_update grid =
     guarded_update ([], [], ''No data available after filtering'')
       (\<lambda>e. ([], [], ''Error loading data: %s'')) grid"

subsection \<open>Charts\<close>

text \<open>
  The six chart callbacks return a figure and an error text.  Each starts from
  \<open>empty_fig\<close>, titled "No data available", returns it with the empty text for an empty
  table, and retitles it "Error in chart" in the handler.  The figure drawn from a table
  with rows is the argument \<open>draw\<close>.
\<close>

datatype 'f figure = Empty_fig | Error_fig | Drawn 'f

definition chart_update ::
  "(table \<Rightarrow> filters \<Rightarrow> exn + 'f figure \<times> string) \<Rightarrow> pylib \<Rightarrow> readers \<Rightarrow> filters
     \<Rightarrow> 'f figure \<times> string" where
  "chart_update draw =
     guarded_update (Empty_fig, '''') (\<lambda>e. (Error_fig, ''Error updating chart: %s'')) draw"

definition scatterchart_update ::
  "(table \<Rightarrow> filters \<Rightarrow> exn + 'f figure \<times> string) \<Rightarrow> pylib \<Rightarrow> readers \<Rightarrow> filters
     \<Rightarrow> 'f figure \<times> string" where
  \<comment> \<open>components/Scatterchart\_Showing.py\<close>
  "scatterchart_update = chart_update"

definition airline_performance_update ::
  "(table \<Rightarrow> filters \<Rightarrow> exn + 'f figure \<times> string) \<Rightarrow> pylib \<Rightarrow> readers \<Rightarrow> filters
     \<Rightarrow> 'f figure \<times> string" where
  \<comment> \<open>components/airline\_performance\_horizontal\_bar.py\<close>
  "airline_performance_update = chart_update"

definition delay_by_weekday_update ::
  "(table \<Rightarrow> filters \<Rightarrow> exn + 'f figure \<times> string) \<Rightarrow> pylib \<Rightarrow> readers \<Rightarrow> filters
     \<Rightarrow> 'f figure \<times> string" where
  \<comment> \<open>components/delay\_by\_weekday\_bar\_chart.py\<close>
  "delay_by_weekday_update = chart_update"

definition delay_distribution_update ::
  "(table \<Rightarrow> filters \<Rightarrow> exn + 'f figure \<times> string) \<Rightarrow> pylib \<Rightarrow> readers \<Rightarrow> filters
     \<Rightarrow> 'f figure \<times> string" where
  \<comment> \<open>components/delay\_distribution\_box\_plot.py\<close>
  "delay_distribution_update = chart_update"

definition flight_connections_update ::
  "(table \<Rightarrow> filters \<Rightarrow> exn + 'f figure \<times> string) \<Rightarrow> pylib \<Rightarrow> readers \<Rightarrow> filters
     \<Rightarrow> 'f figure \<times> string" where
  \<comment> \<open>components/flight\_connections\_map.py\<close>
  "flight_connections_update = chart_update"

definition monthly_trends_update ::
  "(table \<Rightarrow> filters \<Rightarrow> exn + 'f figure \<times> string) \<Rightarrow> pylib \<Rightarrow> readers \<Rightarrow> filters
     \<Rightarrow> 'f figure \<times> string" where
  \<comment> \<open>components/monthly\_flight\_trends\_line\_chart.py\<close>
  "monthly_trends_update = chart_update"

section \<open>The filter pipeline on objects and references\<close>

text \<open>
  Whether \<open>filter_data\<close> changes the table it is given is a question about objects.
  Here DataFrames live in a store, a list of objects addressed by position, and the
  variable \<open>df\<close> of \<open>filter_data\<close> holds a reference.  The statements of the
  function are the same as above; \<open>df.copy()\<close> and each \<open>df[...]\<close> with a boolean
  array build a new object, and a block whose condition is false leaves the variable
  as it is.  The contents of the new objects are those computed by the functions above.
\<close>

type_synonym ref = nat

type_synonym store = "table list"

definition deref :: "store \<times> ref \<Rightarrow> table" where
  \<comment> \<open>the object the variable \<open>df\<close> refers to\<close>
  "deref st = fst st ! snd st"

definition assign_new :: "store \<times> ref \<Rightarrow> table \<Rightarrow> store \<times> ref" where
  \<comment> \<open>\<open>df = <a new DataFrame>\<close>: the object is allocated at the next address and the
      variable is rebound to it; no existing object is written\<close>
  "assign_new st t = (fst st @ [t], length (fst st))"

definition multi_select_ref ::
  "string \<Rightarrow> string \<Rightarrow> filters \<Rightarrow> store \<times> ref \<Rightarrow> exn + store \<times> ref" where
  "multi_select_ref key col F st =
     (case F key of
        None \<Rightarrow> Inl KeyError
      | Some v \<Rightarrow>
          (case selects v of
             Inl e \<Rightarrow> Inl e
           | Inr False \<Rightarrow> Inr st
           | Inr True \<Rightarrow>
               (case multi_select key col F (deref st) of
                  Inl e \<Rightarrow> Inl e
                | Inr t \<Rightarrow> Inr (assign_new st t))))"

definition distance_bound_ref ::
  "pylib \<Rightarrow> string \<Rightarrow> (rat \<Rightarrow> pyfloat \<Rightarrow> bool) \<Rightarrow> filters \<Rightarrow> store \<times> ref
     \<Rightarrow> exn + store \<times> ref" where
  "distance_bound_ref L key ord F st =
     (case distance_bound L key ord F (deref st) of
        Inl e \<Rightarrow> Inl e
      | Inr t \<Rightarrow> Inr (assign_new st t))"

definition distance_filter_ref ::
  "pylib \<Rightarrow> filters \<Rightarrow> store \<times> ref \<Rightarrow> exn + store \<times> ref" where
  "distance_filter_ref L F st =
     (if ''distance'' \<in> set (columns (deref st)) then
        (case distance_bound_ref L ''flight_distance_min'' float_ge F st of
           Inl e \<Rightarrow> Inl e
         | Inr st1 \<Rightarrow> distance_bound_ref L ''flight_distance_max'' float_le F st1)
      else Inr st)"

definition date_filter_ref ::
  "string \<Rightarrow> (timestamp \<Rightarrow> timestamp \<Rightarrow> bool) \<Rightarrow> string \<Rightarrow> pylib \<Rightarrow> filters
     \<Rightarrow> store \<times> ref \<Rightarrow> log_entry list \<times> (exn + store \<times> ref)" where
  "date_filter_ref key ord msg L F st =
     (case F key of
        None \<Rightarrow> ([], Inl KeyError)
      | Some v \<Rightarrow>
          if v = PNone then ([], Inr st)
          else
            (case date_attempt ord (to_datetime L v) (deref st) of
               Inr t \<Rightarrow> ([], Inr (assign_new st t))
             | Inl e \<Rightarrow>
                 if caught e then
                   (case date_attempt ord (map_sum id (\<lambda>t. Stamp (Some t)) (fromisoformat L v)) (deref st) of
                      Inr t \<Rightarrow> ([], Inr (assign_new st t))
                    | Inl e' \<Rightarrow>
                        if caught e' then ([Warning msg], Inr st) else ([], Inl e'))
                 else ([], Inl e)))"

definition filter_data_ref ::
  "pylib \<Rightarrow> store \<times> ref \<Rightarrow> filters \<Rightarrow> log_entry list \<times> (exn + store \<times> ref)" where
  "filter_data_ref L df F =
     then_do ([Debug ''Starting data filtering. Original shape: %s'',
               Debug ''Applied filters: %s''], Inr (assign_new df (copy (deref df)))) (\<lambda>df.
     then_do (quiet (multi_select_ref ''year'' ''year'' F df)) (\<lambda>df.
     then_do (quiet (multi_select_ref ''airline'' ''airline_name'' F df)) (\<lambda>df.
     then_do (quiet (multi_select_ref ''destination_airport'' ''dest'' F df)) (\<lambda>df.
     then_do (quiet (multi_select_ref ''month'' ''month_name'' F df)) (\<lambda>df.
     then_do (quiet (multi_select_ref ''day_of_week'' ''day_of_week'' F df)) (\<lambda>df.
     then_do (quiet (multi_select_ref ''time_period'' ''time_period'' F df)) (\<lambda>df.
     then_do (quiet (multi_select_ref ''delay_category'' ''delay_category'' F df)) (\<lambda>df.
     then_do (quiet (distance_filter_ref L F df)) (\<lambda>df.
     then_do (date_filter_ref ''date_start'' (\<ge>)
                ''Could not parse start_date filter: %s. Error: %s'' L F df) (\<lambda>df.
     then_do (date_filter_ref ''date_end'' (\<le>)
                ''Could not parse end_date filter: %s. Error: %s'' L F df) (\<lambda>df.
     ([Debug ''Filtering complete. Final shape: %s'',
       Debug ''Filtered data sample:\<newline>%s''], Inr df))))))))))))"

definition advances :: "store \<times> ref \<Rightarrow> store \<times> ref \<Rightarrow> bool" where
  \<comment> \<open>the store has only grown, and the variable refers to the same object as before or
      to one allocated since\<close>
  "advances st st' =
     (prefix (fst st) (fst st') \<and> snd st' < length (fst st')
      \<and> (st' = st \<or> length (fst st) \<le> snd st'))"

section \<open>Notions used in the statements\<close>

definition restricted :: "table \<Rightarrow> table \<Rightarrow> bool" where
  \<comment> \<open>\<open>restricted df df'\<close>: \<open>df'\<close> has the columns of \<open>df\<close> and a selection of its rows,
      in order\<close>
  "restricted df df' = (\<exists>xs. subseq xs (rows df) \<and> df' = df\<lparr>rows := xs\<rparr>)"

definition bad_dates :: "table \<Rightarrow> bool" where
  \<comment> \<open>some cell of the date column cannot be compared with a timestamp\<close>
  "bad_dates df = (\<not> list_all comparable_time (map (\<lambda>r. r ''date'') (rows df)))"

definition scalar_bound :: "pylib \<Rightarrow> filters \<Rightarrow> string \<Rightarrow> bool" where
  \<comment> \<open>the date bound under the key is absent, None, or a value that \<open>pd.to_datetime\<close>
      does not turn into a DatetimeIndex (which it makes of a list)\<close>
  "scalar_bound L F key =
     (case F key of
        None \<Rightarrow> True
      | Some v \<Rightarrow>
          v = PNone \<or> (case to_datetime L v of Inr (Stamps bs) \<Rightarrow> False | _ \<Rightarrow> True))"

definition multi_dims :: "(string \<times> string) list" where
  \<comment> \<open>the multi-select dimensions: filter name and column name\<close>
  "multi_dims =
     [(''year'', ''year''),
      (''airline'', ''airline_name''),
      (''destination_airport'', ''dest''),
      (''month'', ''month_name''),
      (''day_of_week'', ''day_of_week''),
      (''time_period'', ''time_period''),
      (''delay_category'', ''delay_category'')]"

definition multi_selects :: "filters \<Rightarrow> table \<Rightarrow> exn + table" where
  \<comment> \<open>the seven multi-select blocks one after the other, up to the first that raises\<close>
  "multi_selects F df =
     foldl (\<lambda>res (key, col). case res of Inl e \<Rightarrow> Inl e | Inr d \<Rightarrow> multi_select key col F d)
       (Inr df) multi_dims"

definition cannot_parse :: "pylib \<Rightarrow> pyval \<Rightarrow> bool" where
  \<comment> \<open>the value is not None, and \<open>pd.to_datetime\<close> and \<open>datetime.fromisoformat\<close> both
      reject it with a ValueError or a TypeError\<close>
  "cannot_parse L v =
     (v \<noteq> PNone
      \<and> (case to_datetime L v of Inl e \<Rightarrow> caught e | Inr p \<Rightarrow> False)
      \<and> (case fromisoformat L v of Inl e \<Rightarrow> caught e | Inr t \<Rightarrow> False))"

definition opening_log :: "log_entry list" where
  "opening_log =
     [Debug ''Starting data filtering. Original shape: %s'', Debug ''Applied filters: %s'']"

definition closing_log :: "log_entry list" where
  "closing_log =
     [Debug ''Filtering complete. Final shape: %s'', Debug ''Filtered data sample:\<newline>%s'']"

definition start_msg :: string where
  "start_msg = ''Could not parse start_date filter: %s. Error: %s''"

definition end_msg :: string where
  "end_msg = ''Could not parse end_date filter: %s. Error: %s''"

fun time_values :: "cell \<Rightarrow> timestamp list" where
  "time_values (CTime t) = [t]"
| "time_values c = []"

definition column_min :: "(cell \<Rightarrow> int list) \<Rightarrow> cell list \<Rightarrow> int option" where
  \<comment> \<open>\<open>Series.min()\<close>: the least value present, missing when there is none\<close>
  "column_min vals cells =
     (if concat (map vals cells) = [] then None else Some (Min (set (concat (map vals cells)))))"

definition column_max :: "(cell \<Rightarrow> int list) \<Rightarrow> cell list \<Rightarrow> int option" where
  "column_max vals cells =
     (if concat (map vals cells) = [] then None else Some (Max (set (concat (map vals cells)))))"

definition is_int :: "cell \<Rightarrow> bool" where
  "is_int c = (case c of CInt n \<Rightarrow> True | _ \<Rightarrow> False)"

definition is_time :: "cell \<Rightarrow> bool" where
  "is_time c = (case c of CTime t \<Rightarrow> True | _ \<Rightarrow> False)"

definition column :: "table \<Rightarrow> string \<Rightarrow> cell list" where
  "column df c = map (\<lambda>r. r c) (rows df)"

definition result_column :: "exn + table \<Rightarrow> string \<Rightarrow> cell list" where
  \<comment> \<open>the cells of a column of a returned table; empty when nothing is returned\<close>
  "result_column res c = (case res of Inl e \<Rightarrow> [] | Inr df \<Rightarrow> column df c)"

section \<open>A sample library instance\<close>

text \<open>
  For examples the library parameters are instantiated with a stand-in: \<open>float\<close> of a
  number is that number, of a string of decimal digits its value, of None or a list a
  TypeError; every other string is rejected with ValueError.  The two date parsers read
  the listed ISO dates (as midnight UTC in nanoseconds), \<open>to_datetime\<close> also a list
  of them, and reject every other value.
  The stand-in is not a model of the library, which reads more strings than these; it is
  used only at values on which the two agree.
\<close>

definition digit_val :: "char \<Rightarrow> nat" where
  "digit_val c = of_char c - 48"

definition is_digit :: "char \<Rightarrow> bool" where
  "is_digit c = (48 \<le> (of_char c :: nat) \<and> (of_char c :: nat) \<le> 57)"

definition digits_value :: "string \<Rightarrow> nat" where
  "digits_value s = foldl (\<lambda>acc c. 10 * acc + digit_val c) 0 s"

definition sample_float :: "pyval \<Rightarrow> exn + pyfloat" where
  "sample_float v =
     (case v of
        PInt n \<Rightarrow> Inr (Finite (of_int n))
      | PFloat r \<Rightarrow> Inr (Finite r)
      | PStr s \<Rightarrow>
          if s \<noteq> [] \<and> list_all is_digit s then Inr (Finite (of_nat (digits_value s)))
          else Inl ValueError
      | _ \<Rightarrow> Inl TypeError)"

definition sample_dates :: "(string \<times> timestamp) list" where
  "sample_dates =
     [(''2022-01-01'', 1640995200000000000),
      (''2022-03-22'', 1647907200000000000),
      (''2022-12-31'', 1672444800000000000)]"

fun sample_date :: "scalar \<Rightarrow> timestamp option" where
  "sample_date (SStr s) = map_of sample_dates s"
| "sample_date (SInt n) = None"

definition sample_to_datetime :: "pyval \<Rightarrow> exn + parsed" where
  "sample_to_datetime v =
     (case v of
        PStr s \<Rightarrow>
          (case map_of sample_dates s of None \<Rightarrow> Inl ValueError | Some t \<Rightarrow> Inr (Stamp (Some t)))
      | PList vs \<Rightarrow>
          if list_all (\<lambda>x. sample_date x \<noteq> None) vs then Inr (Stamps (map sample_date vs))
          else Inl ValueError
      | _ \<Rightarrow> Inl TypeError)"

definition sample_fromisoformat :: "pyval \<Rightarrow> exn + timestamp" where
  "sample_fromisoformat v =
     (case v of
        PStr s \<Rightarrow> (case map_of sample_dates s of None \<Rightarrow> Inl ValueError | Some t \<Rightarrow> Inr t)
      | _ \<Rightarrow> Inl TypeError)"

definition sample_lib :: pylib where
  "sample_lib =
     \<lparr>py_float = sample_float, to_datetime = sample_to_datetime,
      fromisoformat = sample_fromisoformat\<rparr>"

definition no_row :: row where
  "no_row = (\<lambda>c. NA)"

definition all_filters :: filters where
  \<comment> \<open>every multi-select dimension at its default \<open>["all"]\<close>, no date bound, and a
      distance range from 0 to 5000\<close>
  "all_filters =
     [''year'' \<mapsto> PList [SStr ''all''],
      ''airline'' \<mapsto> PList [SStr ''all''],
      ''destination_airport'' \<mapsto> PList [SStr ''all''],
      ''month'' \<mapsto> PList [SStr ''all''],
      ''day_of_week'' \<mapsto> PList [SStr ''all''],
      ''time_period'' \<mapsto> PList [SStr ''all''],
      ''delay_category'' \<mapsto> PList [SStr ''all''],
      ''flight_distance_min'' \<mapsto> PInt 0,
      ''flight_distance_max'' \<mapsto> PInt 5000,
      ''date_start'' \<mapsto> PNone,
      ''date_end'' \<mapsto> PNone]"

text \<open>Two flights, the second without a distance.\<close>

definition gap_table :: table where
  "gap_table =
     \<lparr>columns = [''year'', ''distance''],
      rows = [no_row(''year'' := CInt 2022, ''distance'' := CInt 500),
              no_row(''year'' := CInt 2023)]\<rparr>"

text \<open>The first of the two flights, the one with a distance.\<close>

definition gap_kept :: table where
  "gap_kept =
     \<lparr>columns = [''year'', ''distance''],
      rows = [no_row(''year'' := CInt 2022, ''distance'' := CInt 500)]\<rparr>"

text \<open>Two flights of which only the year is recorded.\<close>

definition year_table :: table where
  "year_table =
     \<lparr>columns = [''year''],
      rows = [no_row(''year'' := CInt 2022), no_row(''year'' := CInt 2023)]\<rparr>"

text \<open>
  Two flights with dates, the second without a distance, and the filter set whose range
  bounds are the least and greatest distance and date of that table.
\<close>

definition dated_gap_table :: table where
  "dated_gap_table =
     \<lparr>columns = [''distance'', ''date''],
      rows = [no_row(''distance'' := CInt 500, ''date'' := CTime 1640995200000000000),
              no_row(''date'' := CTime 1672444800000000000)]\<rparr>"

definition own_range_filters :: filters where
  "own_range_filters =
     [''year'' \<mapsto> PList [SStr ''all''],
      ''airline'' \<mapsto> PList [SStr ''all'', SStr ''A''],
      ''destination_airport'' \<mapsto> PList [SStr ''all''],
      ''month'' \<mapsto> PList [SStr ''all''],
      ''day_of_week'' \<mapsto> PList [SStr ''all''],
      ''time_period'' \<mapsto> PList [SStr ''all''],
      ''delay_category'' \<mapsto> PList [SStr ''all''],
      ''flight_distance_min'' \<mapsto> PInt 500,
      ''flight_distance_max'' \<mapsto> PInt 500,
      ''date_start'' \<mapsto> PStr ''2022-01-01'',
      ''date_end'' \<mapsto> PStr ''2022-12-31'']"

text \<open>The same two flights, both with a distance.\<close>

definition dated_table :: table where
  "dated_table =
     \<lparr>columns = [''distance'', ''date''],
      rows = [no_row(''distance'' := CInt 500, ''date'' := CTime 1640995200000000000),
              no_row(''distance'' := CInt 1500, ''date'' := CTime 1672444800000000000)]\<rparr>"

text \<open>
  The default filter set with, as start date, a list with the one entry 2022-12-31,
  and the end date 2022-01-01.
\<close>

definition list_start_filters :: filters where
  "list_start_filters =
     all_filters(''date_start'' \<mapsto> PList [SStr ''2022-12-31''],
       ''date_end'' \<mapsto> PStr ''2022-01-01'')"

text \<open>
  The two-row scenario of the specification.  The airline column has the name the loader
  gives it; the filter set is completed with the defaults of the other dimensions and no
  date bound.
\<close>

definition scenario_table :: table where
  "scenario_table =
     \<lparr>columns = [''year'', ''airline_name'', ''distance'', ''on_time''],
      rows = [no_row(''year'' := CInt 2022, ''airline_name'' := CStr ''A'',
                     ''distance'' := CInt 500, ''on_time'' := CInt 1),
              no_row(''year'' := CInt 2023, ''airline_name'' := CStr ''B'',
                     ''distance'' := CInt 1500, ''on_time'' := CInt 0)]\<rparr>"

definition scenario_first :: table where
  "scenario_first =
     \<lparr>columns = [''year'', ''airline_name'', ''distance'', ''on_time''],
      rows = [no_row(''year'' := CInt 2022, ''airline_name'' := CStr ''A'',
                     ''distance'' := CInt 500, ''on_time'' := CInt 1)]\<rparr>"

definition scenario_filters :: "scalar \<Rightarrow> filters" where
  "scenario_filters y =
     all_filters(''year'' \<mapsto> PList [y], ''airline'' \<mapsto> PList [SStr ''all''],
       ''flight_distance_min'' \<mapsto> PInt 0, ''flight_distance_max'' \<mapsto> PInt 1000)"

text \<open>
  A sample file store for the loader: two readable files with the same two flights (one
  under a name that ends neither in .csv nor in .parquet), and one file with a date in
  another format, all read as delimited text, so with nullable flag columns.  The sample
  date parser reads the dates listed above.  \<open>flights\<close> is
  the table the loader makes of the two flights.
\<close>

fun sample_parse_ymd :: "cell \<Rightarrow> exn + timestamp option" where
  "sample_parse_ymd NA = Inr None"
| "sample_parse_ymd (CStr s) =
     (case map_of sample_dates s of None \<Rightarrow> Inl ValueError | Some t \<Rightarrow> Inr (Some t))"
| "sample_parse_ymd (CTime t) = Inr (Some t)"
| "sample_parse_ymd c = Inl ValueError"

definition raw_flights :: table where
  "raw_flights =
     \<lparr>columns = [''date'', ''year'', ''airline_name'', ''distance'', ''arr_delay'',
                 ''dep_delay_flag'', ''arr_delay_flag'', ''on_time''],
      rows = [no_row(''date'' := CStr ''2022-01-01'', ''year'' := CInt 2022,
                     ''airline_name'' := CStr ''A'', ''distance'' := CInt 500,
                     ''arr_delay'' := CInt (- 3), ''dep_delay_flag'' := CInt 0,
                     ''arr_delay_flag'' := CInt 0, ''on_time'' := CInt 1),
              no_row(''date'' := CStr ''2022-12-31'', ''year'' := CInt 2023,
                     ''airline_name'' := CStr ''B'', ''distance'' := CInt 1500,
                     ''arr_delay'' := CInt 40, ''dep_delay_flag'' := CInt 2,
                     ''arr_delay_flag'' := CInt 1, ''on_time'' := CInt 0)]\<rparr>"

definition raw_broken :: table where
  "raw_broken =
     \<lparr>columns = [''date'', ''dep_delay_flag'', ''arr_delay_flag'', ''on_time''],
      rows = [no_row(''date'' := CStr ''2022-01-01'', ''dep_delay_flag'' := CInt 0,
                     ''arr_delay_flag'' := CInt 0, ''on_time'' := CInt 1),
              no_row(''date'' := CStr ''31/12/2022'', ''dep_delay_flag'' := CInt 1,
                     ''arr_delay_flag'' := CInt 1, ''on_time'' := CInt 0)]\<rparr>"

definition sample_files :: "(string \<times> table) list" where
  "sample_files =
     [(''data/data.csv'', raw_flights),
      (''data/flights.json'', raw_flights),
      (''data/broken.csv'', raw_broken)]"

definition sample_readers :: readers where
  "sample_readers =
     \<lparr>read_csv = (\<lambda>p. case map_of sample_files p of
                         None \<Rightarrow> Inl FileNotFoundError | Some t \<Rightarrow> Inr t),
      read_parquet = (\<lambda>p. Inl FileNotFoundError),
      to_datetime_ymd = sample_parse_ymd,
      dtype_of = (\<lambda>t c. Nullable)\<rparr>"

definition flights :: table where
  "flights =
     \<lparr>columns = [''date'', ''year'', ''airline_name'', ''distance'', ''arr_delay'',
                 ''dep_delay_flag'', ''arr_delay_flag'', ''on_time'',
                 ''dep_delay_flag_bool'', ''arr_delay_flag_bool'', ''on_time_bool''],
      rows = [no_row(''date'' := CTime 1640995200000000000, ''year'' := CInt 2022,
                     ''airline_name'' := CStr ''A'', ''distance'' := CInt 500,
                     ''arr_delay'' := CInt (- 3), ''dep_delay_flag'' := CInt 0,
                     ''arr_delay_flag'' := CInt 0, ''on_time'' := CInt 1,
                     ''dep_delay_flag_bool'' := CBool False,
                     ''arr_delay_flag_bool'' := CBool False, ''on_time_bool'' := CBool True),
              no_row(''date'' := CTime 1672444800000000000, ''year'' := CInt 2023,
                     ''airline_name'' := CStr ''B'', ''distance'' := CInt 1500,
                     ''arr_delay'' := CInt 40, ''dep_delay_flag'' := CInt 2,
                     ''arr_delay_flag'' := CInt 1, ''on_time'' := CInt 0,
                     ''dep_delay_flag_bool'' := CBool False,
                     ''arr_delay_flag_bool'' := CBool True, ''on_time_bool'' := CBool False)]\<rparr>"

definition year_1999 :: filters where
  "year_1999 = all_filters(''year'' \<mapsto> PList [SInt 1999])"

definition no_chart :: "table \<Rightarrow> filters \<Rightarrow> exn + unit figure \<times> string" where
  "no_chart df kwargs = Inl OtherError"

section \<open>Basic facts about the operations\<close>

lemma take_rows_map_aux:
  "map fst (filter (\<lambda>(r, m). m = Some True) (zip rs (map g rs)))
     = filter (\<lambda>r. g r = Some True) rs"
  by (induction rs) auto

lemma take_rows_rowwise:
  "take_rows (map h (rows df)) df = df\<lparr>rows := filter (\<lambda>r. h r = Some True) (rows df)\<rparr>"
  by (simp add: take_rows_def take_rows_map_aux)

lemma subseq_masked: "subseq (map fst (filter Q (zip xs ms))) xs"
proof (induction xs arbitrary: ms)
  case Nil
  then show ?case by simp
next
  case (Cons x xs)
  then show ?case by (cases ms) auto
qed

lemma subseq_set: "subseq xs ys \<Longrightarrow> set xs \<subseteq> set ys"
  by (auto elim: list_emb_set)

lemma restricted_refl: "restricted df df"
  unfolding restricted_def by (rule exI [of _ "rows df"]) simp

lemma restricted_trans:
  assumes "restricted a b" and "restricted b c"
  shows "restricted a c"
proof -
  from assms obtain xs ys where xs: "subseq xs (rows a)" and b: "b = a\<lparr>rows := xs\<rparr>"
    and ys: "subseq ys (rows b)" and c: "c = b\<lparr>rows := ys\<rparr>"
    unfolding restricted_def by blast
  from ys b have "subseq ys xs" by simp
  with xs have "subseq ys (rows a)" by (rule subseq_order.trans [rotated])
  moreover have "c = a\<lparr>rows := ys\<rparr>" by (simp add: b c)
  ultimately show ?thesis unfolding restricted_def by blast
qed

lemma restricted_columns: "restricted df df' \<Longrightarrow> columns df' = columns df"
  unfolding restricted_def by auto

lemma restricted_rows: "restricted df df' \<Longrightarrow> set (rows df') \<subseteq> set (rows df)"
  unfolding restricted_def using subseq_set by fastforce

lemma restricted_take_rows: "restricted df (take_rows msk df)"
  unfolding restricted_def take_rows_def using subseq_masked by blast

lemma multi_select_restricted:
  "multi_select key col F df = Inr df' \<Longrightarrow> restricted df df'"
  unfolding multi_select_def isin_def getitem_def
  by (auto split: option.splits sum.splits bool.splits pyval.splits if_splits
      simp: restricted_take_rows restricted_refl)

lemma distance_bound_restricted:
  "distance_bound L key ord F df = Inr df' \<Longrightarrow> restricted df df'"
  unfolding distance_bound_def compare_float_def getitem_def
  by (auto split: option.splits sum.splits if_splits simp: restricted_take_rows)

lemma distance_filter_restricted:
  "distance_filter L F df = Inr df' \<Longrightarrow> restricted df df'"
  unfolding distance_filter_def
  by (auto split: sum.splits if_splits
      intro: restricted_refl restricted_trans dest: distance_bound_restricted)

lemma date_attempt_restricted:
  "date_attempt ord parsed df = Inr df' \<Longrightarrow> restricted df df'"
  unfolding date_attempt_def compare_time_def getitem_def
  by (auto split: sum.splits if_splits parsed.splits simp: restricted_take_rows)

lemma date_filter_restricted:
  "snd (date_filter key ord msg L F df) = Inr df' \<Longrightarrow> restricted df df'"
  unfolding date_filter_def
  by (auto split: option.splits sum.splits if_splits
      intro: restricted_refl dest: date_attempt_restricted)

lemma snd_then_do_Inr:
  "snd (then_do m f) = Inr y \<longleftrightarrow> (\<exists>x. snd m = Inr x \<and> snd (f x) = Inr y)"
  unfolding then_do_def by (cases "snd m") auto

lemma snd_quiet: "snd (quiet r) = r"
  by (simp add: quiet_def)

lemma filter_data_Inr:
  "snd (filter_data L df F) = Inr df' \<longleftrightarrow>
     (\<exists>d1 d2 d3 d4 d5 d6 d7 d8 d9.
        multi_select ''year'' ''year'' F df = Inr d1 \<and>
        multi_select ''airline'' ''airline_name'' F d1 = Inr d2 \<and>
        multi_select ''destination_airport'' ''dest'' F d2 = Inr d3 \<and>
        multi_select ''month'' ''month_name'' F d3 = Inr d4 \<and>
        multi_select ''day_of_week'' ''day_of_week'' F d4 = Inr d5 \<and>
        multi_select ''time_period'' ''time_period'' F d5 = Inr d6 \<and>
        multi_select ''delay_category'' ''delay_category'' F d6 = Inr d7 \<and>
        distance_filter L F d7 = Inr d8 \<and>
        snd (date_filter ''date_start'' (\<ge>)
               ''Could not parse start_date filter: %s. Error: %s'' L F d8) = Inr d9 \<and>
        snd (date_filter ''date_end'' (\<le>)
               ''Could not parse end_date filter: %s. Error: %s'' L F d9) = Inr df')"
  unfolding filter_data_def
  by (simp add: snd_then_do_Inr snd_quiet copy_def)

lemma multi_selects_restricted:
  assumes s1: "multi_select k1 c1 F t = Inr d1"
    and s2: "multi_select k2 c2 F d1 = Inr d2"
    and s3: "multi_select k3 c3 F d2 = Inr d3"
    and s4: "multi_select k4 c4 F d3 = Inr d4"
    and s5: "multi_select k5 c5 F d4 = Inr d5"
    and s6: "multi_select k6 c6 F d5 = Inr d6"
    and s7: "multi_select k7 c7 F d6 = Inr d7"
  shows "restricted t d7"
proof -
  note ms = multi_select_restricted
  have "restricted t d2" by (rule restricted_trans [OF ms [OF s1] ms [OF s2]])
  then have "restricted t d3" by (rule restricted_trans [OF _ ms [OF s3]])
  then have "restricted t d4" by (rule restricted_trans [OF _ ms [OF s4]])
  then have "restricted t d5" by (rule restricted_trans [OF _ ms [OF s5]])
  then have "restricted t d6" by (rule restricted_trans [OF _ ms [OF s6]])
  then show "restricted t d7" by (rule restricted_trans [OF _ ms [OF s7]])
qed

lemma filter_data_stages:
  assumes "snd (filter_data L t F) = Inr t'"
  obtains d7 d8 d9 where
    "restricted t d7" and
    "distance_filter L F d7 = Inr d8" and
    "snd (date_filter ''date_start'' (\<ge>)
            ''Could not parse start_date filter: %s. Error: %s'' L F d8) = Inr d9" and
    "snd (date_filter ''date_end'' (\<le>)
            ''Could not parse end_date filter: %s. Error: %s'' L F d9) = Inr t'"
proof -
  from assms obtain d1 d2 d3 d4 d5 d6 d7 d8 d9 where
    s1: "multi_select ''year'' ''year'' F t = Inr d1" and
    s2: "multi_select ''airline'' ''airline_name'' F d1 = Inr d2" and
    s3: "multi_select ''destination_airport'' ''dest'' F d2 = Inr d3" and
    s4: "multi_select ''month'' ''month_name'' F d3 = Inr d4" and
    s5: "multi_select ''day_of_week'' ''day_of_week'' F d4 = Inr d5" and
    s6: "multi_select ''time_period'' ''time_period'' F d5 = Inr d6" and
    s7: "multi_select ''delay_category'' ''delay_category'' F d6 = Inr d7" and
    s8: "distance_filter L F d7 = Inr d8" and
    s9: "snd (date_filter ''date_start'' (\<ge>)
               ''Could not parse start_date filter: %s. Error: %s'' L F d8) = Inr d9" and
    s10: "snd (date_filter ''date_end'' (\<le>)
               ''Could not parse end_date filter: %s. Error: %s'' L F d9) = Inr t'"
    unfolding filter_data_Inr by (elim exE conjE)
  show thesis
    by (rule that [OF multi_selects_restricted [OF s1 s2 s3 s4 s5 s6 s7] s8 s9 s10])
qed

lemma distance_bound_present:
  assumes "distance_bound L key ord F df = Inr df'" and "r \<in> set (rows df')"
  shows "r ''distance'' \<noteq> NA"
proof -
  from assms(1) obtain x where
    df': "df' = take_rows (map (\<lambda>r. cmp_num_cell ord x (r ''distance'')) (rows df)) df"
    unfolding distance_bound_def compare_float_def getitem_def
    by (auto split: option.splits sum.splits if_splits simp: comp_def)
  from assms(2) have "cmp_num_cell ord x (r ''distance'') = Some True"
    unfolding df' take_rows_rowwise by simp
  then show ?thesis by (cases "r ''distance''") auto
qed

lemma distance_filter_present:
  assumes "''distance'' \<in> set (columns df)" and "distance_filter L F df = Inr df'"
    and "r \<in> set (rows df')"
  shows "r ''distance'' \<noteq> NA"
  using assms distance_bound_present unfolding distance_filter_def
  by (auto split: sum.splits)

subsection \<open>Steps applied to an already restricted table\<close>

lemma restricted_fixed:
  assumes "restricted df1 X" and "\<And>r. r \<in> set (rows df1) \<Longrightarrow> h r = Some True"
  shows "take_rows (map h (rows X)) X = X"
proof -
  have "\<And>r. r \<in> set (rows X) \<Longrightarrow> h r = Some True"
    using assms restricted_rows by blast
  then have "filter (\<lambda>r. h r = Some True) (rows X) = rows X"
    by (simp add: filter_id_conv)
  then show ?thesis by (simp add: take_rows_rowwise)
qed

lemma multi_select_stable:
  assumes "multi_select key col F df = Inr df1" and "restricted df1 X"
  shows "multi_select key col F X = Inr X"
proof -
  from assms(1) obtain v where v: "F key = Some v"
    unfolding multi_select_def by (auto split: option.splits)
  from assms(1) v obtain b where b: "selects v = Inr b"
    unfolding multi_select_def by (auto split: sum.splits)
  show ?thesis
  proof (cases b)
    case False
    with v b show ?thesis unfolding multi_select_def by simp
  next
    case True
    with assms(1) v b obtain vs where col: "col \<in> set (columns df)" and vs: "v = PList vs"
      and df1: "df1 = take_rows (map (\<lambda>r. Some (isin_cell vs (r col))) (rows df)) df"
      unfolding multi_select_def getitem_def isin_def
      by (auto split: sum.splits if_splits pyval.splits simp: comp_def)
    have colX: "col \<in> set (columns X)"
      using col assms(2) df1 by (simp add: restricted_columns take_rows_def)
    have "take_rows (map (\<lambda>r. Some (isin_cell vs (r col))) (rows X)) X = X"
      using assms(2) by (rule restricted_fixed) (simp add: df1 take_rows_rowwise)
    with v b True colX vs show ?thesis
      unfolding multi_select_def getitem_def isin_def by (simp add: comp_def)
  qed
qed

lemma distance_bound_stable:
  assumes "distance_bound L key ord F df = Inr df1" and "restricted df1 X"
  shows "distance_bound L key ord F X = Inr X"
proof -
  from assms(1) obtain v x where col: "''distance'' \<in> set (columns df)"
    and v: "F key = Some v" and x: "py_float L v = Inr x"
    and ok: "list_all comparable_num (map (\<lambda>r. r ''distance'') (rows df))"
    and df1: "df1 = take_rows (map (\<lambda>r. cmp_num_cell ord x (r ''distance'')) (rows df)) df"
    unfolding distance_bound_def compare_float_def getitem_def
    by (auto split: option.splits sum.splits if_splits simp: comp_def)
  have r1: "restricted df df1" unfolding df1 by (rule restricted_take_rows)
  have rX: "restricted df X" by (rule restricted_trans [OF r1 assms(2)])
  have colX: "''distance'' \<in> set (columns X)"
    using col rX by (simp add: restricted_columns)
  have okX: "list_all comparable_num (map (\<lambda>r. r ''distance'') (rows X))"
    using ok restricted_rows [OF rX] by (auto simp: list_all_iff)
  have "take_rows (map (\<lambda>r. cmp_num_cell ord x (r ''distance'')) (rows X)) X = X"
    using assms(2) by (rule restricted_fixed) (simp add: df1 take_rows_rowwise)
  with v x colX okX show ?thesis
    unfolding distance_bound_def compare_float_def getitem_def by (simp add: comp_def)
qed

lemma distance_filter_stable:
  assumes "distance_filter L F df = Inr df2" and "restricted df2 X"
  shows "distance_filter L F X = Inr X"
proof (cases "''distance'' \<in> set (columns df)")
  case False
  with assms have "df2 = df" unfolding distance_filter_def by simp
  with False assms(2) have "''distance'' \<notin> set (columns X)"
    by (simp add: restricted_columns)
  then show ?thesis unfolding distance_filter_def by simp
next
  case True
  with assms(1) obtain df1 where
    b1: "distance_bound L ''flight_distance_min'' float_ge F df = Inr df1" and
    b2: "distance_bound L ''flight_distance_max'' float_le F df1 = Inr df2"
    unfolding distance_filter_def by (auto split: sum.splits)
  have r12: "restricted df1 df2" using b2 by (rule distance_bound_restricted)
  have r1X: "restricted df1 X" by (rule restricted_trans [OF r12 assms(2)])
  have "restricted df df1" using b1 by (rule distance_bound_restricted)
  then have "restricted df X" using r1X by (rule restricted_trans)
  with True have colX: "''distance'' \<in> set (columns X)" by (simp add: restricted_columns)
  from distance_bound_stable [OF b1 r1X] distance_bound_stable [OF b2 assms(2)] colX
  show ?thesis unfolding distance_filter_def by simp
qed

lemma scalar_boundD:
  assumes "scalar_bound L F key" and "F key = Some v" and "v \<noteq> PNone"
  shows "to_datetime L v \<noteq> Inr (Stamps bs)"
  using assms unfolding scalar_bound_def by auto

lemma date_attempt_bad:
  "bad_dates df \<Longrightarrow> date_attempt ord parsed df = Inr df' \<Longrightarrow> \<exists>bs. parsed = Inr (Stamps bs)"
  unfolding date_attempt_def compare_time_def getitem_def bad_dates_def
  by (auto split: sum.splits if_splits parsed.splits)

lemma date_filter_bad:
  assumes "bad_dates df" and "snd (date_filter key ord msg L F df) = Inr df'"
    and "scalar_bound L F key"
  shows "df' = df"
proof -
  from assms(2) obtain v where v: "F key = Some v"
    unfolding date_filter_def by (auto split: option.splits)
  show ?thesis
  proof (cases "v = PNone")
    case True
    with assms(2) v show ?thesis unfolding date_filter_def by simp
  next
    case False
    note sc = scalar_boundD [OF assms(3) v False]
    have a1: "date_attempt ord (to_datetime L v) df \<noteq> Inr d" for d
      using date_attempt_bad [OF assms(1)] sc by blast
    have a2: "date_attempt ord (map_sum id (\<lambda>t. Stamp (Some t)) (fromisoformat L v)) df \<noteq> Inr d"
      for d
      using date_attempt_bad [OF assms(1), of ord "map_sum id (\<lambda>t. Stamp (Some t)) (fromisoformat L v)" d]
      by (cases "fromisoformat L v") auto
    from assms(2) v False a1 a2 show ?thesis unfolding date_filter_def
      by (auto split: sum.splits if_splits)
  qed
qed

lemma date_attempt_stable:
  assumes "date_attempt ord parsed df = Inr df1" and "restricted df1 X"
    and "\<And>bs. parsed \<noteq> Inr (Stamps bs)"
  shows "date_attempt ord parsed X = Inr X"
proof -
  from assms(1,3) obtain b where col: "''date'' \<in> set (columns df)"
    and p: "parsed = Inr (Stamp b)"
    and ok: "list_all comparable_time (map (\<lambda>r. r ''date'') (rows df))"
    and df1: "df1 = take_rows (map (\<lambda>r. cmp_time_cell ord b (r ''date'')) (rows df)) df"
    unfolding date_attempt_def compare_time_def getitem_def
    by (auto split: sum.splits if_splits parsed.splits simp: comp_def)
  have r1: "restricted df df1" unfolding df1 by (rule restricted_take_rows)
  have rX: "restricted df X" by (rule restricted_trans [OF r1 assms(2)])
  have colX: "''date'' \<in> set (columns X)"
    using col rX by (simp add: restricted_columns)
  have okX: "list_all comparable_time (map (\<lambda>r. r ''date'') (rows X))"
    using ok restricted_rows [OF rX] by (auto simp: list_all_iff)
  have "take_rows (map (\<lambda>r. cmp_time_cell ord b (r ''date'')) (rows X)) X = X"
    using assms(2) by (rule restricted_fixed) (simp add: df1 take_rows_rowwise)
  with p colX okX show ?thesis
    unfolding date_attempt_def compare_time_def getitem_def by (simp add: comp_def)
qed

text \<open>The exception of an attempt depends on the table only through the presence of the
  date column and of cells that cannot be compared.\<close>

lemma date_attempt_exn_same:
  assumes "date_attempt ord parsed df = Inl e"
    and "columns X = columns df" and "bad_dates X = bad_dates df"
    and "\<And>bs. parsed \<noteq> Inr (Stamps bs)"
  shows "date_attempt ord parsed X = Inl e"
  using assms unfolding date_attempt_def compare_time_def getitem_def bad_dates_def
  by (auto split: sum.splits if_splits parsed.splits)

lemma second_attempt_scalar:
  "map_sum id (\<lambda>t. Stamp (Some t)) x \<noteq> Inr (Stamps bs)"
  by (cases x) auto

lemma date_filter_stable:
  assumes "snd (date_filter key ord msg L F df) = Inr df1" and "restricted df1 X"
    and "bad_dates df \<Longrightarrow> bad_dates X" and "scalar_bound L F key"
  shows "snd (date_filter key ord msg L F X) = Inr X"
proof -
  from assms(1) obtain v where v: "F key = Some v"
    unfolding date_filter_def by (auto split: option.splits)
  have r: "restricted df df1" using assms(1) by (rule date_filter_restricted)
  have rX: "restricted df X" by (rule restricted_trans [OF r assms(2)])
  have cols: "columns X = columns df" using rX by (rule restricted_columns)
  have bad: "bad_dates X = bad_dates df"
    using assms(3) restricted_rows [OF rX] unfolding bad_dates_def
    by (auto simp: list_all_iff)
  show ?thesis
  proof (cases "v = PNone")
    case True
    with v show ?thesis unfolding date_filter_def by simp
  next
    case nn: False
    note sc = scalar_boundD [OF assms(4) v nn]
    show ?thesis
    proof (cases "date_attempt ord (to_datetime L v) df")
      case (Inr d)
      with assms(1) v nn have "d = df1" unfolding date_filter_def by simp
      with Inr assms(2) have "date_attempt ord (to_datetime L v) X = Inr X"
        using date_attempt_stable sc by blast
      with v nn show ?thesis unfolding date_filter_def by simp
    next
      case (Inl e)
      with assms(1) v nn have c: "caught e" unfolding date_filter_def
        by (auto split: if_splits)
      have a1: "date_attempt ord (to_datetime L v) X = Inl e"
        using Inl cols bad sc by (rule date_attempt_exn_same)
      show ?thesis
      proof (cases "date_attempt ord (map_sum id (\<lambda>t. Stamp (Some t)) (fromisoformat L v)) df")
        case (Inr d)
        with assms(1) v nn Inl c have "d = df1" unfolding date_filter_def by simp
        with Inr assms(2)
        have "date_attempt ord (map_sum id (\<lambda>t. Stamp (Some t)) (fromisoformat L v)) X = Inr X"
          using date_attempt_stable second_attempt_scalar by blast
        with v nn a1 c show ?thesis unfolding date_filter_def by simp
      next
        case e': (Inl e')
        with assms(1) v nn Inl c have c': "caught e'" unfolding date_filter_def
          by (auto split: if_splits)
        have "date_attempt ord (map_sum id (\<lambda>t. Stamp (Some t)) (fromisoformat L v)) X = Inl e'"
          using e' cols bad second_attempt_scalar by (rule date_attempt_exn_same)
        with v nn a1 c c' show ?thesis unfolding date_filter_def by simp
      qed
    qed
  qed
qed

subsection \<open>Evaluation on the sample tables\<close>

lemma gap_table_filtered:
  "snd (filter_data sample_lib gap_table all_filters) =
     Inr \<lparr>columns = [''year'', ''distance''],
          rows = [no_row(''year'' := CInt 2022, ''distance'' := CInt 500)]\<rparr>"
  by (simp add: filter_data_def then_do_def quiet_def copy_def multi_select_def selects_def
      py_len_def py_contains_def all_filters_def distance_filter_def distance_bound_def
      getitem_def compare_float_def take_rows_def date_filter_def gap_table_def
      sample_lib_def sample_float_def no_row_def)

subsection \<open>Dependence on the filter values\<close>








lemma selects_all: "SStr ''all'' \<in> set vs \<Longrightarrow> selects (PList vs) = Inr False"
  by (auto simp: selects_def py_len_def py_contains_def)


lemma multi_select_unconstrained:
  "F key = Some v \<Longrightarrow> selects v = Inr False \<Longrightarrow> multi_select key col F df = Inr df"
  unfolding multi_select_def by simp




subsection \<open>Bounds that cannot be read\<close>

lemma date_attempt_Inl: "date_attempt ord (Inl e) df = Inl e"
  by (simp add: date_attempt_def)

lemma snd_then_do:
  "snd (then_do m f) = (case snd m of Inl e \<Rightarrow> Inl e | Inr x \<Rightarrow> snd (f x))"
  unfolding then_do_def by (cases "snd m") auto

lemma fst_then_do:
  "fst (then_do m f) = fst m @ (case snd m of Inl e \<Rightarrow> [] | Inr x \<Rightarrow> fst (f x))"
  unfolding then_do_def by (cases "snd m") auto


subsection \<open>Steps that keep every row\<close>

lemma take_rows_all:
  assumes "\<And>r. r \<in> set (rows df) \<Longrightarrow> h r = Some True"
  shows "take_rows (map h (rows df)) df = df"
  using restricted_refl assms by (rule restricted_fixed)

lemma column_min_le:
  assumes "column_min vals cells = Some m" and "c \<in> set cells" and "n \<in> set (vals c)"
  shows "m \<le> n"
proof -
  define xs where "xs = concat (map vals cells)"
  from assms(2,3) have n: "n \<in> set xs" unfolding xs_def by auto
  then have "xs \<noteq> []" by (metis empty_iff empty_set)
  with assms(1) have "m = Min (set xs)"
    unfolding column_min_def xs_def [symmetric] by (simp only: if_False option.inject)
  with n show ?thesis by simp
qed

lemma column_max_ge:
  assumes "column_max vals cells = Some m" and "c \<in> set cells" and "n \<in> set (vals c)"
  shows "n \<le> m"
proof -
  define xs where "xs = concat (map vals cells)"
  from assms(2,3) have n: "n \<in> set xs" unfolding xs_def by auto
  then have "xs \<noteq> []" by (metis empty_iff empty_set)
  with assms(1) have "m = Max (set xs)"
    unfolding column_max_def xs_def [symmetric] by (simp only: if_False option.inject)
  with n show ?thesis by simp
qed

lemma distance_bound_keeps_all:
  assumes "''distance'' \<in> set (columns t)" and "list_all is_int (column t ''distance'')"
    and "F key = Some v" and "py_float L v = Inr x"
    and "\<And>n. CInt n \<in> set (column t ''distance'') \<Longrightarrow> ord (of_int n) x"
  shows "distance_bound L key ord F t = Inr t"
proof -
  have int: "\<exists>n. r ''distance'' = CInt n" if "r \<in> set (rows t)" for r
  proof -
    from assms(2) that have "is_int (r ''distance'')"
      unfolding column_def list_all_iff by simp
    then show ?thesis unfolding is_int_def by (cases "r ''distance''") simp_all
  qed
  have ok: "list_all comparable_num (map (\<lambda>r. r ''distance'') (rows t))"
    using int unfolding list_all_iff by fastforce
  have "cmp_num_cell ord x (r ''distance'') = Some True" if "r \<in> set (rows t)" for r
  proof -
    from int [OF that] obtain n where n: "r ''distance'' = CInt n" by blast
    from that have "r ''distance'' \<in> set (column t ''distance'')"
      unfolding column_def by simp
    then have "ord (of_int n) x" unfolding n by (rule assms(5))
    then show ?thesis unfolding n by simp
  qed
  then have "take_rows (map (\<lambda>r. cmp_num_cell ord x (r ''distance'')) (rows t)) t = t"
    by (rule take_rows_all)
  with assms(1,3,4) ok show ?thesis
    unfolding distance_bound_def compare_float_def getitem_def by (simp add: comp_def)
qed

lemma date_attempt_keeps_all:
  assumes "''date'' \<in> set (columns t)" and "list_all is_time (column t ''date'')"
    and "\<And>x. CTime x \<in> set (column t ''date'') \<Longrightarrow> ord x a"
  shows "date_attempt ord (Inr (Stamp (Some a))) t = Inr t"
proof -
  have tm: "\<exists>x. r ''date'' = CTime x" if "r \<in> set (rows t)" for r
  proof -
    from assms(2) that have "is_time (r ''date'')"
      unfolding column_def list_all_iff by simp
    then show ?thesis unfolding is_time_def by (cases "r ''date''") simp_all
  qed
  have ok: "list_all comparable_time (map (\<lambda>r. r ''date'') (rows t))"
    using tm unfolding list_all_iff by fastforce
  have "cmp_time_cell ord (Some a) (r ''date'') = Some True" if "r \<in> set (rows t)" for r
  proof -
    from tm [OF that] obtain x where x: "r ''date'' = CTime x" by blast
    from that have "r ''date'' \<in> set (column t ''date'')"
      unfolding column_def by simp
    then have "ord x a" unfolding x by (rule assms(3))
    then show ?thesis unfolding x by simp
  qed
  then have "take_rows (map (\<lambda>r. cmp_time_cell ord (Some a) (r ''date'')) (rows t)) t = t"
    by (rule take_rows_all)
  with assms(1) ok show ?thesis
    unfolding date_attempt_def compare_time_def getitem_def by (simp add: comp_def)
qed

lemma date_filter_keeps_all:
  assumes "''date'' \<in> set (columns t)" and "list_all is_time (column t ''date'')"
    and "F key = Some v" and "to_datetime L v = Inr (Stamp (Some a))"
    and "\<And>x. CTime x \<in> set (column t ''date'') \<Longrightarrow> ord x a"
  shows "snd (date_filter key ord msg L F t) = Inr t"
proof -
  have "date_attempt ord (Inr (Stamp (Some a))) t = Inr t"
    using assms(1,2) by (rule date_attempt_keeps_all) (rule assms(5))
  with assms(3,4) show ?thesis unfolding date_filter_def by simp
qed

lemmas eval_filter =
  filter_data_def snd_then_do snd_quiet copy_def multi_select_def selects_def py_len_def
  py_contains_def distance_filter_def distance_bound_def getitem_def compare_float_def
  take_rows_def date_filter_def date_attempt_def compare_time_def isin_def
  sample_lib_def sample_float_def sample_to_datetime_def sample_fromisoformat_def
  sample_dates_def no_row_def


subsection \<open>The loader and the callbacks\<close>

lemmas eval_loader =
  get_data_def prepare_def flag_bool_def setitem_def dropna_all_def getitem_def
  default_path_def sample_readers_def sample_files_def sample_dates_def suffix_Cons

lemma prepare_raw_flights: "prepare sample_readers raw_flights = Inr flights"
  by (simp add: eval_loader raw_flights_def flights_def no_row_def fun_eq_iff)

lemma get_data_sample: "get_data sample_readers default_path = Inr flights"
  using prepare_raw_flights
  by (simp add: get_data_def default_path_def sample_readers_def sample_files_def suffix_Cons)

lemma setitem_rows_aux:
  "map (\<lambda>(r, v). r(c := v)) (zip rs (map f rs)) = map (\<lambda>r. r(c := f r)) rs"
  by (induction rs) auto

lemma flag_bool_rows:
  assumes "flag_bool d target flag df = Inr df'"
  shows "rows df' = map (\<lambda>r. r(target := eq_one d (r flag))) (rows df)"
proof -
  from assms have "df' = setitem df target (map (eq_one d) (map (\<lambda>r. r flag) (rows df)))"
    unfolding flag_bool_def getitem_def by (auto split: if_splits)
  then show ?thesis
    using setitem_rows_aux [of target "rows df" "\<lambda>r. eq_one d (r flag)"]
    by (simp add: setitem_def comp_def)
qed

lemma prepare_flags:
  assumes "prepare R df = Inr out" and "r \<in> set (rows out)"
  shows "r ''dep_delay_flag_bool'' = eq_one (dtype_of R df ''dep_delay_flag'') (r ''dep_delay_flag'')
       \<and> r ''arr_delay_flag_bool'' = eq_one (dtype_of R df ''arr_delay_flag'') (r ''arr_delay_flag'')
       \<and> r ''on_time_bool'' = eq_one (dtype_of R df ''on_time'') (r ''on_time'')"
proof -
  let ?d1 = "dtype_of R df ''dep_delay_flag''"
  let ?d2 = "dtype_of R df ''arr_delay_flag''"
  let ?d3 = "dtype_of R df ''on_time''"
  from assms(1) obtain df0 df1 df2 df3 where
    f1: "flag_bool ?d1 ''dep_delay_flag_bool'' ''dep_delay_flag'' df0 = Inr df1" and
    f2: "flag_bool ?d2 ''arr_delay_flag_bool'' ''arr_delay_flag'' df1 = Inr df2" and
    f3: "flag_bool ?d3 ''on_time_bool'' ''on_time'' df2 = Inr df3" and
    out: "out = dropna_all df3"
    unfolding prepare_def by (auto split: sum.splits)
  from assms(2) out have "r \<in> set (rows df3)"
    by (simp add: dropna_all_def)
  then obtain r2 where r2: "r2 \<in> set (rows df2)"
    and r: "r = r2(''on_time_bool'' := eq_one ?d3 (r2 ''on_time''))"
    unfolding flag_bool_rows [OF f3] by auto
  from r2 obtain r1 where r1: "r1 \<in> set (rows df1)"
    and r2': "r2 = r1(''arr_delay_flag_bool'' := eq_one ?d2 (r1 ''arr_delay_flag''))"
    unfolding flag_bool_rows [OF f2] by auto
  from r1 obtain r0 where
    r1': "r1 = r0(''dep_delay_flag_bool'' := eq_one ?d1 (r0 ''dep_delay_flag''))"
    unfolding flag_bool_rows [OF f1] by auto
  show ?thesis unfolding r r2' r1' by simp
qed

lemma convert_dates_error:
  assumes "c \<in> set cs" and "p c = Inl e"
  shows "\<exists>c' e'. c' \<in> set cs \<and> p c' = Inl e' \<and> convert_dates p cs = Inl e'"
  using assms
proof (induction cs)
  case Nil
  then show ?case by simp
next
  case (Cons a cs)
  show ?case
  proof (cases "p a")
    case (Inl e')
    then show ?thesis by auto
  next
    case (Inr t)
    with Cons.prems have "c \<in> set cs" by auto
    from Cons.IH [OF this Cons.prems(2)] obtain c' e' where
      "c' \<in> set cs" "p c' = Inl e'" "convert_dates p cs = Inl e'" by blast
    with Inr show ?thesis by auto
  qed
qed

lemma prepare_bad_date:
  assumes "''date'' \<in> set (columns df)" and "c \<in> set (column df ''date'')"
    and "to_datetime_ymd R c = Inl e"
  shows "\<exists>c' e'. c' \<in> set (column df ''date'') \<and> to_datetime_ymd R c' = Inl e'
           \<and> prepare R df = Inl e'"
proof -
  from convert_dates_error [where p = "to_datetime_ymd R", OF assms(2,3)] obtain c' e' where
    "c' \<in> set (column df ''date'')" "to_datetime_ymd R c' = Inl e'"
    "convert_dates (to_datetime_ymd R) (column df ''date'') = Inl e'" by blast
  with assms(1) show ?thesis
    unfolding prepare_def getitem_def column_def by auto
qed

lemma guarded_update_empty:
  assumes "get_data R default_path = Inr df0" and "snd (filter_data L df0 kwargs) = Inr df"
    and "rows df = []"
  shows "guarded_update no_data on_error aggregate L R kwargs = no_data"
  using assms unfolding guarded_update_def by simp

lemma flights_1999:
  "snd (filter_data sample_lib flights year_1999)
     = Inr \<lparr>columns = [''date'', ''year'', ''airline_name'', ''distance'', ''arr_delay'',
                 ''dep_delay_flag'', ''arr_delay_flag'', ''on_time'',
                 ''dep_delay_flag_bool'', ''arr_delay_flag_bool'', ''on_time_bool''],
            rows = []\<rparr>"
  by (simp add: eval_filter flights_def year_1999_def all_filters_def)

subsection \<open>The pipeline on references\<close>

lemma advances_refl: "snd st < length (fst st) \<Longrightarrow> advances st st"
  by (simp add: advances_def)

lemma advances_trans: "advances a b \<Longrightarrow> advances b c \<Longrightarrow> advances a c"
  unfolding advances_def by (auto dest: prefix_length_le intro: prefix_order.trans)

lemma advances_assign_new: "advances st (assign_new st t)"
  by (simp add: advances_def assign_new_def)

lemma deref_assign_new: "deref (assign_new st t) = t"
  by (simp add: deref_def assign_new_def)

lemma multi_select_ref_sim:
  assumes "multi_select_ref key col F st = Inr st'" and "snd st < length (fst st)"
  shows "advances st st' \<and> multi_select key col F (deref st) = Inr (deref st')"
  using assms unfolding multi_select_ref_def
  by (auto split: option.splits sum.splits bool.splits
      simp: advances_assign_new deref_assign_new advances_refl multi_select_def)

lemma distance_bound_ref_sim:
  assumes "distance_bound_ref L key ord F st = Inr st'"
  shows "advances st st' \<and> distance_bound L key ord F (deref st) = Inr (deref st')"
  using assms unfolding distance_bound_ref_def
  by (auto split: sum.splits simp: advances_assign_new deref_assign_new)

lemma distance_filter_ref_sim:
  assumes "distance_filter_ref L F st = Inr st'" and "snd st < length (fst st)"
  shows "advances st st' \<and> distance_filter L F (deref st) = Inr (deref st')"
  using assms unfolding distance_filter_ref_def distance_filter_def
  by (auto split: sum.splits if_splits dest!: distance_bound_ref_sim
      intro: advances_trans advances_refl)

lemma date_filter_ref_sim:
  assumes "snd (date_filter_ref key ord msg L F st) = Inr st'" and "snd st < length (fst st)"
  shows "advances st st' \<and> snd (date_filter key ord msg L F (deref st)) = Inr (deref st')"
  using assms unfolding date_filter_ref_def date_filter_def
  by (auto split: option.splits sum.splits if_splits
      simp: advances_assign_new deref_assign_new advances_refl)

lemma filter_data_ref_Inr:
  "snd (filter_data_ref L st F) = Inr st' \<longleftrightarrow>
     (\<exists>d1 d2 d3 d4 d5 d6 d7 d8 d9.
        multi_select_ref ''year'' ''year'' F (assign_new st (copy (deref st))) = Inr d1 \<and>
        multi_select_ref ''airline'' ''airline_name'' F d1 = Inr d2 \<and>
        multi_select_ref ''destination_airport'' ''dest'' F d2 = Inr d3 \<and>
        multi_select_ref ''month'' ''month_name'' F d3 = Inr d4 \<and>
        multi_select_ref ''day_of_week'' ''day_of_week'' F d4 = Inr d5 \<and>
        multi_select_ref ''time_period'' ''time_period'' F d5 = Inr d6 \<and>
        multi_select_ref ''delay_category'' ''delay_category'' F d6 = Inr d7 \<and>
        distance_filter_ref L F d7 = Inr d8 \<and>
        snd (date_filter_ref ''date_start'' (\<ge>)
               ''Could not parse start_date filter: %s. Error: %s'' L F d8) = Inr d9 \<and>
        snd (date_filter_ref ''date_end'' (\<le>)
               ''Could not parse end_date filter: %s. Error: %s'' L F d9) = Inr st')"
  unfolding filter_data_ref_def
  by (simp add: snd_then_do_Inr snd_quiet del: split_paired_Ex split_paired_All)

lemma advances_valid: "advances st st' \<Longrightarrow> snd st' < length (fst st')"
  by (simp add: advances_def)

subsection \<open>The blocks of \<open>filter_data\<close>\<close>

lemma filter_data_blocks:
  "filter_data L t F =
     then_do (opening_log, multi_selects F t) (\<lambda>df.
     then_do (quiet (distance_filter L F df)) (\<lambda>df.
     then_do (date_filter ''date_start'' (\<ge>) start_msg L F df) (\<lambda>df.
     then_do (date_filter ''date_end'' (\<le>) end_msg L F df) (\<lambda>df.
     (closing_log, Inr df)))))"
  by (simp add: prod_eq_iff filter_data_def multi_selects_def multi_dims_def fst_then_do
      snd_then_do quiet_def copy_def opening_log_def closing_log_def start_msg_def end_msg_def
      split: sum.splits)


lemma cannot_parse_skipped:
  assumes "cannot_parse L v" and "F key = Some v"
  shows "date_filter key ord msg L F df = ([Warning msg], Inr df)"
  using assms
  by (auto simp: cannot_parse_def date_filter_def date_attempt_Inl split: sum.splits)




lemma select_blocks_restricted:
  assumes "foldl (\<lambda>res (key, col). case res of Inl e \<Rightarrow> Inl e | Inr d \<Rightarrow> multi_select key col F d)
             r xs = Inr d"
  shows "\<exists>t. r = Inr t \<and> restricted t d"
  using assms
proof (induction xs arbitrary: r)
  case Nil
  then show ?case by (simp add: restricted_refl)
next
  case (Cons a xs)
  obtain k c where a: "a = (k, c)" by (cases a)
  from Cons.IH [of "case r of Inl e \<Rightarrow> Inl e | Inr d \<Rightarrow> multi_select k c F d"] Cons.prems a
  obtain t' where t': "(case r of Inl e \<Rightarrow> Inl e | Inr d \<Rightarrow> multi_select k c F d) = Inr t'"
    and r': "restricted t' d" by auto
  from t' obtain t where r: "r = Inr t" and m: "multi_select k c F t = Inr t'"
    by (cases r) auto
  from restricted_trans [OF multi_select_restricted [OF m] r'] r show ?case by simp
qed

lemma multi_selects_columns:
  assumes "multi_selects F t = Inr d"
  shows "columns d = columns t"
proof -
  from select_blocks_restricted [OF assms [unfolded multi_selects_def]]
  have "restricted t d" by simp
  then show ?thesis by (rule restricted_columns)
qed

section \<open>The unconstrained filter set\<close>

text \<open>
  C1, as the claim states it, fails: a row whose distance is missing fails both range
  comparisons, although the bounds are the least and greatest distance of the table
  (which \<open>Series.min\<close> and \<open>Series.max\<close> take over the values present).
\<close>

theorem missing_distance_breaks_identity:
  "column_min num_values (column dated_gap_table ''distance'') = Some 500
   \<and> column_max num_values (column dated_gap_table ''distance'') = Some 500
   \<and> column_min time_values (column dated_gap_table ''date'') = Some 1640995200000000000
   \<and> column_max time_values (column dated_gap_table ''date'') = Some 1672444800000000000
   \<and> to_datetime sample_lib (PStr ''2022-01-01'') = Inr (Stamp (Some 1640995200000000000))
   \<and> to_datetime sample_lib (PStr ''2022-12-31'') = Inr (Stamp (Some 1672444800000000000))
   \<and> snd (filter_data sample_lib dated_gap_table own_range_filters)
       = Inr \<lparr>columns = [''distance'', ''date''],
              rows = [no_row(''distance'' := CInt 500, ''date'' := CTime 1640995200000000000)]\<rparr>
   \<and> snd (filter_data sample_lib dated_gap_table own_range_filters) \<noteq> Inr dated_gap_table"
proof -
  have r: "snd (filter_data sample_lib dated_gap_table own_range_filters)
       = Inr \<lparr>columns = [''distance'', ''date''],
              rows = [no_row(''distance'' := CInt 500, ''date'' := CTime 1640995200000000000)]\<rparr>"
    by (simp add: eval_filter dated_gap_table_def own_range_filters_def)
  have "column_min num_values (column dated_gap_table ''distance'') = Some 500"
    "column_max num_values (column dated_gap_table ''distance'') = Some 500"
    "column_min time_values (column dated_gap_table ''date'') = Some 1640995200000000000"
    "column_max time_values (column dated_gap_table ''date'') = Some 1672444800000000000"
    by (simp_all add: column_min_def column_max_def column_def dated_gap_table_def no_row_def)
  moreover have "to_datetime sample_lib (PStr ''2022-01-01'') = Inr (Stamp (Some 1640995200000000000))"
    "to_datetime sample_lib (PStr ''2022-12-31'') = Inr (Stamp (Some 1672444800000000000))"
    by (simp_all add: sample_lib_def sample_to_datetime_def sample_dates_def)
  moreover have "snd (filter_data sample_lib dated_gap_table own_range_filters) \<noteq> Inr dated_gap_table"
    unfolding r by (simp add: dated_gap_table_def)
  ultimately show ?thesis using r by blast
qed

text \<open>
  C1, amended.  For a table in which every row has an integer distance and a timestamp
  date, and a filter set in which every multi-select list contains \<open>"all"\<close>
  (possibly with other values) and the distance and date bounds coerce to the least and
  greatest distance and date of the table, \<open>filter_data\<close> returns the table itself,
  row for row.
\<close>

theorem unconstrained_filter_is_identity:
  assumes sel: "\<forall>(k, c) \<in> set multi_dims. \<exists>vs. F k = Some (PList vs) \<and> SStr ''all'' \<in> set vs"
    and dcol: "''distance'' \<in> set (columns t)"
    and dint: "list_all is_int (column t ''distance'')"
    and lo: "F ''flight_distance_min'' = Some lo" "py_float L lo = Inr (Finite (of_int m_lo))"
      "column_min num_values (column t ''distance'') = Some m_lo"
    and hi: "F ''flight_distance_max'' = Some hi" "py_float L hi = Inr (Finite (of_int m_hi))"
      "column_max num_values (column t ''distance'') = Some m_hi"
    and tcol: "''date'' \<in> set (columns t)"
    and ttime: "list_all is_time (column t ''date'')"
    and ds: "F ''date_start'' = Some start" "to_datetime L start = Inr (Stamp (Some t_lo))"
      "column_min time_values (column t ''date'') = Some t_lo"
    and de: "F ''date_end'' = Some finish" "to_datetime L finish = Inr (Stamp (Some t_hi))"
      "column_max time_values (column t ''date'') = Some t_hi"
  shows "snd (filter_data L t F) = Inr t"
proof -
  have m: "multi_select k c F t = Inr t" if "(k, c) \<in> set multi_dims" for k c
  proof -
    from sel that obtain vs where "F k = Some (PList vs)" and "SStr ''all'' \<in> set vs"
      by blast
    then show ?thesis by (intro multi_select_unconstrained [OF _ selects_all])
  qed
  have b1: "distance_bound L ''flight_distance_min'' float_ge F t = Inr t"
    using dcol dint lo(1,2)
  proof (rule distance_bound_keeps_all)
    fix n assume "CInt n \<in> set (column t ''distance'')"
    with lo(3) have "m_lo \<le> n" by (rule column_min_le) simp
    then show "float_ge (of_int n) (Finite (of_int m_lo))" by simp
  qed
  have b2: "distance_bound L ''flight_distance_max'' float_le F t = Inr t"
    using dcol dint hi(1,2)
  proof (rule distance_bound_keeps_all)
    fix n assume "CInt n \<in> set (column t ''distance'')"
    with hi(3) have "n \<le> m_hi" by (rule column_max_ge) simp
    then show "float_le (of_int n) (Finite (of_int m_hi))" by simp
  qed
  have d: "distance_filter L F t = Inr t"
    unfolding distance_filter_def using dcol b1 b2 by simp
  have s: "snd (date_filter ''date_start'' (\<ge>) msg L F t) = Inr t" for msg
    using tcol ttime ds(1,2)
  proof (rule date_filter_keeps_all)
    fix x assume "CTime x \<in> set (column t ''date'')"
    with ds(3) show "t_lo \<le> x" by (rule column_min_le) simp
  qed
  have e: "snd (date_filter ''date_end'' (\<le>) msg L F t) = Inr t" for msg
    using tcol ttime de(1,2)
  proof (rule date_filter_keeps_all)
    fix x assume "CTime x \<in> set (column t ''date'')"
    with de(3) show "x \<le> t_hi" by (rule column_max_ge) simp
  qed
  have dims: "(''year'', ''year'') \<in> set multi_dims"
    "(''airline'', ''airline_name'') \<in> set multi_dims"
    "(''destination_airport'', ''dest'') \<in> set multi_dims"
    "(''month'', ''month_name'') \<in> set multi_dims"
    "(''day_of_week'', ''day_of_week'') \<in> set multi_dims"
    "(''time_period'', ''time_period'') \<in> set multi_dims"
    "(''delay_category'', ''delay_category'') \<in> set multi_dims"
    by (simp_all add: multi_dims_def)
  show ?thesis
    unfolding filter_data_Inr
    using m [OF dims(1)] m [OF dims(2)] m [OF dims(3)] m [OF dims(4)] m [OF dims(5)]
      m [OF dims(6)] m [OF dims(7)] d s e
    by (intro exI [of _ t] conjI)
qed


theorem unconstrained_filter_is_identity_witness:
  "(own_range_filters(''flight_distance_max'' \<mapsto> PInt 1500)) ''airline''
       = Some (PList [SStr ''all'', SStr ''A''])
   \<and> list_all is_int (column dated_table ''distance'')
   \<and> list_all is_time (column dated_table ''date'')
   \<and> column_min num_values (column dated_table ''distance'') = Some 500
   \<and> column_max num_values (column dated_table ''distance'') = Some 1500
   \<and> column_min time_values (column dated_table ''date'') = Some 1640995200000000000
   \<and> column_max time_values (column dated_table ''date'') = Some 1672444800000000000
   \<and> snd (filter_data sample_lib dated_table
            (own_range_filters(''flight_distance_max'' \<mapsto> PInt 1500))) = Inr dated_table"
proof -
  let ?F = "own_range_filters(''flight_distance_max'' \<mapsto> PInt 1500)"
  have sel: "\<forall>(k, c) \<in> set multi_dims. \<exists>vs. ?F k = Some (PList vs) \<and> SStr ''all'' \<in> set vs"
    by (simp add: multi_dims_def own_range_filters_def)
  have dcol: "''distance'' \<in> set (columns dated_table)"
    and tcol: "''date'' \<in> set (columns dated_table)"
    by (simp_all add: dated_table_def)
  have dint: "list_all is_int (column dated_table ''distance'')"
    and ttime: "list_all is_time (column dated_table ''date'')"
    by (simp_all add: dated_table_def column_def is_int_def is_time_def no_row_def)
  have lo: "?F ''flight_distance_min'' = Some (PInt 500)"
    "py_float sample_lib (PInt 500) = Inr (Finite (of_int 500))"
    "column_min num_values (column dated_table ''distance'') = Some 500"
    by (simp_all add: own_range_filters_def sample_lib_def sample_float_def column_min_def
        column_def dated_table_def no_row_def)
  have hi: "?F ''flight_distance_max'' = Some (PInt 1500)"
    "py_float sample_lib (PInt 1500) = Inr (Finite (of_int 1500))"
    "column_max num_values (column dated_table ''distance'') = Some 1500"
    by (simp_all add: own_range_filters_def sample_lib_def sample_float_def column_max_def
        column_def dated_table_def no_row_def)
  have ds: "?F ''date_start'' = Some (PStr ''2022-01-01'')"
    "to_datetime sample_lib (PStr ''2022-01-01'') = Inr (Stamp (Some 1640995200000000000))"
    "column_min time_values (column dated_table ''date'') = Some 1640995200000000000"
    by (simp_all add: own_range_filters_def sample_lib_def sample_to_datetime_def
        sample_dates_def column_min_def column_def dated_table_def no_row_def)
  have de: "?F ''date_end'' = Some (PStr ''2022-12-31'')"
    "to_datetime sample_lib (PStr ''2022-12-31'') = Inr (Stamp (Some 1672444800000000000))"
    "column_max time_values (column dated_table ''date'') = Some 1672444800000000000"
    by (simp_all add: own_range_filters_def sample_lib_def sample_to_datetime_def
        sample_dates_def column_max_def column_def dated_table_def no_row_def)
  have air: "?F ''airline'' = Some (PList [SStr ''all'', SStr ''A''])"
    by (simp add: own_range_filters_def)
  from unconstrained_filter_is_identity [OF sel dcol dint lo hi tcol ttime ds de]
    air dint ttime lo(3) hi(3) ds(3) de(3)
  show ?thesis by blast
qed

section \<open>Failures of the loader\<close>

text \<open>
  C2, as the claim states it, fails: the loader has no notion of an unsupported
  extension.  A path that does not end in .parquet is handed to the text reader whatever
  its extension is, and the file is loaded when its content is delimited text.
\<close>

theorem other_extension_is_read_as_text:
  "\<not> suffix ''.parquet'' ''data/flights.json''
   \<and> get_data sample_readers ''data/flights.json'' = Inr flights"
  using prepare_raw_flights
  by (simp add: get_data_def sample_readers_def sample_files_def suffix_Cons)

text \<open>
  C2, amended.  The loader fails with the error of the reader when the reader fails (for
  a missing file, pandas' FileNotFoundError, passed on unchanged); it fails with the
  error of the date parser when the date of any one row cannot be parsed, a failure of
  the whole load and not the skipping of a row; and it raises nothing for the extension:
  every path not ending in .parquet is read as delimited text.
\<close>

theorem loader_failures:
  "((if suffix ''.parquet'' data_path then read_parquet R data_path
     else read_csv R data_path) = Inl e \<longrightarrow> get_data R data_path = Inl e)
   \<and> ((if suffix ''.parquet'' data_path then read_parquet R data_path
        else read_csv R data_path) = Inr df
       \<and> ''date'' \<in> set (columns df) \<and> c \<in> set (column df ''date'')
       \<and> to_datetime_ymd R c = Inl e
       \<longrightarrow> (\<exists>c' e'. c' \<in> set (column df ''date'') \<and> to_datetime_ymd R c' = Inl e'
              \<and> get_data R data_path = Inl e'))
   \<and> (\<not> suffix ''.parquet'' data_path \<longrightarrow>
        get_data R data_path
          = (case read_csv R data_path of Inl e \<Rightarrow> Inl e | Inr df \<Rightarrow> prepare R df))"
proof (intro conjI impI)
  assume "(if suffix ''.parquet'' data_path then read_parquet R data_path
           else read_csv R data_path) = Inl e"
  then show "get_data R data_path = Inl e" unfolding get_data_def by simp
next
  assume a: "(if suffix ''.parquet'' data_path then read_parquet R data_path
              else read_csv R data_path) = Inr df
       \<and> ''date'' \<in> set (columns df) \<and> c \<in> set (column df ''date'')
       \<and> to_datetime_ymd R c = Inl e"
  then have g: "get_data R data_path = prepare R df" unfolding get_data_def by simp
  from a prepare_bad_date [of df c R e] show
    "\<exists>c' e'. c' \<in> set (column df ''date'') \<and> to_datetime_ymd R c' = Inl e'
         \<and> get_data R data_path = Inl e'"
    unfolding g by blast
next
  assume "\<not> suffix ''.parquet'' data_path"
  then show "get_data R data_path
          = (case read_csv R data_path of Inl e \<Rightarrow> Inl e | Inr df \<Rightarrow> prepare R df)"
    unfolding get_data_def by simp
qed

theorem loader_failures_witness:
  "read_csv sample_readers ''data/missing.csv'' = Inl FileNotFoundError
   \<and> get_data sample_readers ''data/missing.csv'' = Inl FileNotFoundError
   \<and> read_csv sample_readers ''data/broken.csv'' = Inr raw_broken
   \<and> CStr ''31/12/2022'' \<in> set (column raw_broken ''date'')
   \<and> to_datetime_ymd sample_readers (CStr ''31/12/2022'') = Inl ValueError
   \<and> get_data sample_readers ''data/broken.csv'' = Inl ValueError"
proof -
  have n1: "\<not> suffix ''.parquet'' ''data/missing.csv''"
    and n2: "\<not> suffix ''.parquet'' ''data/broken.csv''"
    by (simp_all add: suffix_Cons)
  have m: "read_csv sample_readers ''data/missing.csv'' = Inl FileNotFoundError"
    by (simp add: sample_readers_def sample_files_def)
  have b: "read_csv sample_readers ''data/broken.csv'' = Inr raw_broken"
    by (simp add: sample_readers_def sample_files_def)
  have col: "''date'' \<in> set (columns raw_broken)"
    and c: "CStr ''31/12/2022'' \<in> set (column raw_broken ''date'')"
    by (simp_all add: raw_broken_def column_def no_row_def)
  have p: "to_datetime_ymd sample_readers (CStr ''31/12/2022'') = Inl ValueError"
    by (simp add: sample_readers_def sample_dates_def)
  have only: "to_datetime_ymd sample_readers c' = Inl e' \<Longrightarrow> e' = ValueError" for c' e'
    by (cases c') (auto simp: sample_readers_def split: option.splits)
  from loader_failures [of "''data/missing.csv''" sample_readers FileNotFoundError] n1 m
  have g1: "get_data sample_readers ''data/missing.csv'' = Inl FileNotFoundError" by simp
  from loader_failures
    [of "''data/broken.csv''" sample_readers ValueError raw_broken "CStr ''31/12/2022''"]
    n2 b col c p
  obtain c' e' where "to_datetime_ymd sample_readers c' = Inl e'"
    and "get_data sample_readers ''data/broken.csv'' = Inl e'" by auto
  with only have g2: "get_data sample_readers ''data/broken.csv'' = Inl ValueError" by blast
  from m g1 b c p g2 show ?thesis by blast
qed

section \<open>Empty and absent selections\<close>




section \<open>The derived boolean columns\<close>

text \<open>
  C4, as the claim states it, fails: the booleans are computed by \<open>== 1\<close>, so a flag of
  2 gives False, not True.
\<close>

theorem flag_two_is_false:
  "result_column (get_data sample_readers default_path) ''dep_delay_flag'' = [CInt 0, CInt 2]
   \<and> result_column (get_data sample_readers default_path) ''dep_delay_flag_bool''
       = [CBool False, CBool False]"
  by (simp add: get_data_sample result_column_def column_def flights_def)

text \<open>
  C4, amended.  After load, each of the three derived boolean columns
  (dep_delay_flag_bool, arr_delay_flag_bool, on_time_bool) is true for every row whose
  corresponding integer flag is 1 and false for every row whose flag is any other integer;
  in particular a flag value of 2 yields false.
\<close>

theorem derived_flag_columns:
  assumes "get_data R data_path = Inr df" and "r \<in> set (rows df)"
  shows "(\<forall>n. r ''dep_delay_flag'' = CInt n \<longrightarrow> r ''dep_delay_flag_bool'' = CBool (n = 1))
       \<and> (\<forall>n. r ''arr_delay_flag'' = CInt n \<longrightarrow> r ''arr_delay_flag_bool'' = CBool (n = 1))
       \<and> (\<forall>n. r ''on_time'' = CInt n \<longrightarrow> r ''on_time_bool'' = CBool (n = 1))"
proof -
  from assms(1) obtain raw where "prepare R raw = Inr df"
    unfolding get_data_def by (auto split: sum.splits)
  from prepare_flags [OF this assms(2)] show ?thesis by simp
qed

theorem derived_flag_columns_witness:
  "get_data sample_readers default_path = Inr flights
   \<and> result_column (get_data sample_readers default_path) ''on_time'' = [CInt 1, CInt 0]
   \<and> result_column (get_data sample_readers default_path) ''on_time_bool''
       = [CBool True, CBool False]"
proof -
  let ?r = "hd (rows flights)"
  have r: "?r \<in> set (rows flights)" by (simp add: flights_def)
  have v: "?r ''on_time'' = CInt 1" by (simp add: flights_def)
  from derived_flag_columns [OF get_data_sample r] v
  have "?r ''on_time_bool'' = CBool True" by simp
  moreover have "result_column (Inr flights) ''on_time'' = [CInt 1, CInt 0]"
    by (simp add: result_column_def column_def flights_def)
  moreover have "map (\<lambda>r. r ''on_time_bool'') (tl (rows flights)) = [CBool False]"
    by (simp add: flights_def)
  ultimately show ?thesis
    using get_data_sample
    by (simp add: result_column_def column_def flights_def)
qed

section \<open>The two-row scenario\<close>

text \<open>
  C5, as the claim states it, fails: the year column holds integers and the selection
  \<open>["2022"]\<close> holds a string, which \<open>isin\<close> does not match with the integer
  2022, so no row is returned.
\<close>

theorem scenario_year_as_text:
  "snd (filter_data sample_lib scenario_table (scenario_filters (SStr ''2022'')))
     = Inr \<lparr>columns = [''year'', ''airline_name'', ''distance'', ''on_time''], rows = []\<rparr>"
  by (simp add: eval_filter scenario_table_def scenario_filters_def all_filters_def)

text \<open>
  C5, amended.  With the year selected as the integer 2022 (the value the year dropdown
  sends), \<open>filter_data\<close> returns exactly the first row of the scenario table, and
  the on-time rate over that result is 100 percent.
\<close>

theorem scenario_year_as_number:
  "snd (filter_data sample_lib scenario_table (scenario_filters (SInt 2022))) = Inr scenario_first
   \<and> on_time_rate scenario_first = Inr (Finite 100)"
proof
  show "snd (filter_data sample_lib scenario_table (scenario_filters (SInt 2022)))
      = Inr scenario_first"
    by (simp add: eval_filter scenario_table_def scenario_first_def scenario_filters_def
        all_filters_def)
  show "on_time_rate scenario_first = Inr (Finite 100)"
    by (simp add: on_time_rate_def getitem_def series_sum_def numeric_def scenario_first_def
        no_row_def)
qed

section \<open>Unreadable range bounds\<close>

text \<open>
  C6, as the claim states it, fails.  The distance bounds are read only under the guard
  \<open>if "distance" in df.columns\<close>: on a table without a distance column a bound that
  \<open>float\<close> rejects is never coerced, and \<open>filter_data\<close> returns the table.  And the date
  blocks come after the distance block: with a start date that cannot be parsed and a
  distance bound that cannot be coerced, on a table with a distance column, the coercion
  error ends \<open>filter_data\<close> before any warning is logged.
\<close>

theorem uncoercible_bound_not_read:
  "py_float sample_lib (PStr ''far'') = Inl ValueError
   \<and> filter_data sample_lib year_table (all_filters(''flight_distance_min'' \<mapsto> PStr ''far''))
       = ([Debug ''Starting data filtering. Original shape: %s'',
           Debug ''Applied filters: %s'',
           Debug ''Filtering complete. Final shape: %s'',
           Debug ''Filtered data sample:\<newline>%s''], Inr year_table)
   \<and> cannot_parse sample_lib (PStr ''next week'')
   \<and> filter_data sample_lib gap_table
         (all_filters(''date_start'' \<mapsto> PStr ''next week'',
            ''flight_distance_min'' \<mapsto> PStr ''far''))
       = ([Debug ''Starting data filtering. Original shape: %s'',
           Debug ''Applied filters: %s''], Inl ValueError)"
proof (intro conjI)
  show "py_float sample_lib (PStr ''far'') = Inl ValueError"
    by (simp add: sample_lib_def sample_float_def is_digit_def)
  show "cannot_parse sample_lib (PStr ''next week'')"
    by (simp add: cannot_parse_def caught_def sample_lib_def sample_to_datetime_def
        sample_fromisoformat_def sample_dates_def)
  show "filter_data sample_lib year_table (all_filters(''flight_distance_min'' \<mapsto> PStr ''far''))
       = ([Debug ''Starting data filtering. Original shape: %s'',
           Debug ''Applied filters: %s'',
           Debug ''Filtering complete. Final shape: %s'',
           Debug ''Filtered data sample:\<newline>%s''], Inr year_table)"
    by (simp add: prod_eq_iff fst_then_do quiet_def eval_filter year_table_def
        all_filters_def)
  show "filter_data sample_lib gap_table
         (all_filters(''date_start'' \<mapsto> PStr ''next week'',
            ''flight_distance_min'' \<mapsto> PStr ''far''))
       = ([Debug ''Starting data filtering. Original shape: %s'',
           Debug ''Applied filters: %s''], Inl ValueError)"
    by (simp add: prod_eq_iff fst_then_do quiet_def eval_filter gap_table_def
        all_filters_def is_digit_def)
qed

text \<open>
  C6, amended.  Take a filter set and a table on which the seven multi-select blocks
  return, with the table \<open>d\<close>.  If the start date is not None and cannot be parsed (both
  \<open>pd.to_datetime\<close> and \<open>datetime.fromisoformat\<close> reject it with a ValueError or a
  TypeError), the distance block returns and the end date block returns, then
  \<open>filter_data\<close> logs the warning for the start date, skips that bound (the end date block
  works on the table the distance block gave) and returns normally; the same holds for
  an end date that cannot be parsed.  A distance bound that \<open>float\<close> rejects is not
  skipped when the table has a distance column: the coercion error of the lower bound,
  or of the upper bound when the lower comparison returned, propagates out of
  \<open>filter_data\<close>, after the two opening debug lines.  When the table has no distance
  column the distance bounds are not read, whatever they are.
\<close>

theorem unparseable_bounds:
  assumes "multi_selects F t = Inr d"
  shows "(cannot_parse L v \<and> F ''date_start'' = Some v
          \<and> distance_filter L F d = Inr d'
          \<and> date_filter ''date_end'' (\<le>) end_msg L F d' = (lg, Inr d'')
          \<longrightarrow> filter_data L t F
                = (opening_log @ [Warning start_msg] @ lg @ closing_log, Inr d''))
       \<and> (cannot_parse L v \<and> F ''date_end'' = Some v
          \<and> distance_filter L F d = Inr d'
          \<and> date_filter ''date_start'' (\<ge>) start_msg L F d' = (lg, Inr d'')
          \<longrightarrow> filter_data L t F
                = (opening_log @ lg @ [Warning end_msg] @ closing_log, Inr d''))
       \<and> (''distance'' \<in> set (columns t) \<and> F ''flight_distance_min'' = Some b
          \<and> py_float L b = Inl e
          \<longrightarrow> filter_data L t F = (opening_log, Inl e))
       \<and> (''distance'' \<in> set (columns t) \<and> F ''flight_distance_max'' = Some b
          \<and> py_float L b = Inl e
          \<and> distance_bound L ''flight_distance_min'' float_ge F d = Inr d'
          \<longrightarrow> filter_data L t F = (opening_log, Inl e))
       \<and> (''distance'' \<notin> set (columns t)
          \<and> date_filter ''date_start'' (\<ge>) start_msg L F d = (lg, Inr d')
          \<and> date_filter ''date_end'' (\<le>) end_msg L F d' = (lg', Inr d'')
          \<longrightarrow> filter_data L t F = (opening_log @ lg @ lg' @ closing_log, Inr d''))"
proof (intro conjI impI; elim conjE)
  note cols = multi_selects_columns [OF assms]
  {
    assume "cannot_parse L v" "F ''date_start'' = Some v" "distance_filter L F d = Inr d'"
      "date_filter ''date_end'' (\<le>) end_msg L F d' = (lg, Inr d'')"
    then show "filter_data L t F
        = (opening_log @ [Warning start_msg] @ lg @ closing_log, Inr d'')"
      by (simp add: filter_data_blocks assms then_do_def quiet_def
          cannot_parse_skipped [where v = v])
  next
    assume "cannot_parse L v" "F ''date_end'' = Some v" "distance_filter L F d = Inr d'"
      "date_filter ''date_start'' (\<ge>) start_msg L F d' = (lg, Inr d'')"
    then show "filter_data L t F
        = (opening_log @ lg @ [Warning end_msg] @ closing_log, Inr d'')"
      by (simp add: filter_data_blocks assms then_do_def quiet_def
          cannot_parse_skipped [where v = v])
  next
    assume "''distance'' \<in> set (columns t)" "F ''flight_distance_min'' = Some b"
      "py_float L b = Inl e"
    then have "distance_filter L F d = Inl e"
      by (simp add: distance_filter_def distance_bound_def getitem_def cols)
    then show "filter_data L t F = (opening_log, Inl e)"
      by (simp add: filter_data_blocks assms then_do_def quiet_def)
  next
    assume c: "''distance'' \<in> set (columns t)" and "F ''flight_distance_max'' = Some b"
      "py_float L b = Inl e"
      and m: "distance_bound L ''flight_distance_min'' float_ge F d = Inr d'"
    moreover have "''distance'' \<in> set (columns d')"
      using c distance_bound_restricted [OF m] by (simp add: restricted_columns cols)
    ultimately have "distance_filter L F d = Inl e"
      by (simp add: distance_filter_def distance_bound_def [of L "''flight_distance_max''"]
          getitem_def cols)
    then show "filter_data L t F = (opening_log, Inl e)"
      by (simp add: filter_data_blocks assms then_do_def quiet_def)
  next
    assume "''distance'' \<notin> set (columns t)"
      "date_filter ''date_start'' (\<ge>) start_msg L F d = (lg, Inr d')"
      "date_filter ''date_end'' (\<le>) end_msg L F d' = (lg', Inr d'')"
    then show "filter_data L t F = (opening_log @ lg @ lg' @ closing_log, Inr d'')"
      by (simp add: filter_data_blocks assms then_do_def quiet_def distance_filter_def cols)
  }
qed

theorem unparseable_bounds_witness:
  "cannot_parse sample_lib (PStr ''next week'')
   \<and> py_float sample_lib (PStr ''far'') = Inl ValueError
   \<and> multi_selects (all_filters(''date_start'' \<mapsto> PStr ''next week'')) gap_table = Inr gap_table
   \<and> distance_filter sample_lib (all_filters(''date_start'' \<mapsto> PStr ''next week'')) gap_table
       = Inr gap_kept
   \<and> filter_data sample_lib gap_table (all_filters(''date_start'' \<mapsto> PStr ''next week''))
       = (opening_log @ [Warning start_msg] @ closing_log, Inr gap_kept)
   \<and> filter_data sample_lib gap_table (all_filters(''date_end'' \<mapsto> PStr ''next week''))
       = (opening_log @ [Warning end_msg] @ closing_log, Inr gap_kept)
   \<and> filter_data sample_lib gap_table (all_filters(''flight_distance_min'' \<mapsto> PStr ''far''))
       = (opening_log, Inl ValueError)
   \<and> filter_data sample_lib gap_table (all_filters(''flight_distance_max'' \<mapsto> PStr ''far''))
       = (opening_log, Inl ValueError)
   \<and> filter_data sample_lib year_table (all_filters(''flight_distance_max'' \<mapsto> PStr ''far''))
       = (opening_log @ closing_log, Inr year_table)"
proof -
  let ?s = "all_filters(''date_start'' \<mapsto> PStr ''next week'')"
  let ?e = "all_filters(''date_end'' \<mapsto> PStr ''next week'')"
  let ?lo = "all_filters(''flight_distance_min'' \<mapsto> PStr ''far'')"
  let ?hi = "all_filters(''flight_distance_max'' \<mapsto> PStr ''far'')"
  note sel = multi_selects_def multi_dims_def multi_select_def selects_def py_len_def
    py_contains_def all_filters_def
  have cp: "cannot_parse sample_lib (PStr ''next week'')"
    by (simp add: cannot_parse_def caught_def sample_lib_def sample_to_datetime_def
        sample_fromisoformat_def sample_dates_def)
  have fl: "py_float sample_lib (PStr ''far'') = Inl ValueError"
    by (simp add: sample_lib_def sample_float_def is_digit_def)
  have ms: "multi_selects ?s gap_table = Inr gap_table"
    and me: "multi_selects ?e gap_table = Inr gap_table"
    and mlo: "multi_selects ?lo gap_table = Inr gap_table"
    and mhi: "multi_selects ?hi gap_table = Inr gap_table"
    and my: "multi_selects ?hi year_table = Inr year_table"
    by (simp_all add: sel)
  have ds: "distance_filter sample_lib ?s gap_table = Inr gap_kept"
    and de: "distance_filter sample_lib ?e gap_table = Inr gap_kept"
    by (simp_all add: eval_filter gap_table_def gap_kept_def all_filters_def)
  have ks: "?s ''date_start'' = Some (PStr ''next week'')"
    and ke: "?e ''date_end'' = Some (PStr ''next week'')"
    and klo: "?lo ''flight_distance_min'' = Some (PStr ''far'')"
    and khi: "?hi ''flight_distance_max'' = Some (PStr ''far'')"
    by simp_all
  have es: "date_filter ''date_end'' (\<le>) end_msg sample_lib ?s gap_kept = ([], Inr gap_kept)"
    and se: "date_filter ''date_start'' (\<ge>) start_msg sample_lib ?e gap_kept
               = ([], Inr gap_kept)"
    and sy: "date_filter ''date_start'' (\<ge>) start_msg sample_lib ?hi year_table
               = ([], Inr year_table)"
    and ey: "date_filter ''date_end'' (\<le>) end_msg sample_lib ?hi year_table
               = ([], Inr year_table)"
    by (simp_all add: date_filter_def all_filters_def)
  have cg: "''distance'' \<in> set (columns gap_table)"
    and cy: "''distance'' \<notin> set (columns year_table)"
    by (simp_all add: gap_table_def year_table_def)
  have bl: "distance_bound sample_lib ''flight_distance_min'' float_ge ?hi gap_table
              = Inr gap_kept"
    by (simp add: eval_filter gap_table_def gap_kept_def all_filters_def)
  note a = unparseable_bounds [OF ms, THEN conjunct1, rule_format,
      OF conjI [OF cp conjI [OF ks conjI [OF ds es]]]]
  note b = unparseable_bounds [OF me, THEN conjunct2, THEN conjunct1, rule_format,
      OF conjI [OF cp conjI [OF ke conjI [OF de se]]]]
  note c = unparseable_bounds [OF mlo, THEN conjunct2, THEN conjunct2, THEN conjunct1,
      rule_format, OF conjI [OF cg conjI [OF klo fl]]]
  note d = unparseable_bounds [OF mhi, THEN conjunct2, THEN conjunct2, THEN conjunct2,
      THEN conjunct1, rule_format, OF conjI [OF cg conjI [OF khi conjI [OF fl bl]]]]
  note e = unparseable_bounds [OF my, THEN conjunct2, THEN conjunct2, THEN conjunct2,
      THEN conjunct2, rule_format, OF conjI [OF cy conjI [OF sy ey]]]
  from a b c d e cp fl ms ds show ?thesis by simp
qed

section \<open>Empty results\<close>

text \<open>
  C7.  When the table \<open>filter_data\<close> returns has no rows, every callback that consumes
  it returns its value for "no data" before any aggregation: five "No Data" cards, the
  empty grid with its title, and for each of the six charts the empty figure with an
  empty error text.
\<close>

theorem empty_result_is_no_data:
  assumes "get_data R default_path = Inr df0" and "snd (filter_data L df0 kwargs) = Inr df"
    and "rows df = []"
  shows "data_cards_update L R kwargs = no_data_cards
       \<and> data_table_update grid L R kwargs = ([], [], ''No data available after filtering'')
       \<and> scatterchart_update draw1 L R kwargs = (Empty_fig, [])
       \<and> airline_performance_update draw2 L R kwargs = (Empty_fig, [])
       \<and> delay_by_weekday_update draw3 L R kwargs = (Empty_fig, [])
       \<and> delay_distribution_update draw4 L R kwargs = (Empty_fig, [])
       \<and> flight_connections_update draw5 L R kwargs = (Empty_fig, [])
       \<and> monthly_trends_update draw6 L R kwargs = (Empty_fig, [])"
  unfolding data_cards_update_def data_table_update_def scatterchart_update_def
    airline_performance_update_def delay_by_weekday_update_def delay_distribution_update_def
    flight_connections_update_def monthly_trends_update_def chart_update_def
  by (simp add: guarded_update_empty [OF assms])

theorem empty_result_is_no_data_witness:
  "get_data sample_readers default_path = Inr flights
   \<and> map_sum id rows (snd (filter_data sample_lib flights year_1999)) = Inr []
   \<and> data_cards_update sample_lib sample_readers year_1999 = no_data_cards
   \<and> scatterchart_update no_chart sample_lib sample_readers year_1999 = (Empty_fig, [])"
proof -
  have e: "rows \<lparr>columns = [''date'', ''year'', ''airline_name'', ''distance'', ''arr_delay'',
                 ''dep_delay_flag'', ''arr_delay_flag'', ''on_time'',
                 ''dep_delay_flag_bool'', ''arr_delay_flag_bool'', ''on_time_bool''],
            rows = []\<rparr> = []" by simp
  note t = empty_result_is_no_data [where ?draw1.0 = no_chart, OF get_data_sample flights_1999 e]
  from t have c: "data_cards_update sample_lib sample_readers year_1999 = no_data_cards"
    by (rule conjunct1)
  have s: "scatterchart_update no_chart sample_lib sample_readers year_1999 = (Empty_fig, [])"
    by (rule t [THEN conjunct2, THEN conjunct2, THEN conjunct1])
  have r: "map_sum id rows (snd (filter_data sample_lib flights year_1999)) = Inr []"
    unfolding flights_1999 by simp
  from get_data_sample r c s show ?thesis by (intro conjI)
qed

section \<open>Idempotence\<close>

text \<open>
  C8, as the claim states it, fails for a date bound given as a list.  Of a list
  \<open>pd.to_datetime\<close> makes a DatetimeIndex, whose comparison with the date column
  raises ValueError unless it has one entry per row.  On the two-row table the
  one-entry bound is skipped with a warning and the end date keeps one row; on that
  one-row result the bound is compared with the row and removes it.
\<close>

theorem list_bound_not_idempotent:
  "to_datetime sample_lib (PList [SStr ''2022-12-31''])
     = Inr (Stamps [Some 1672444800000000000])
   \<and> fst (filter_data sample_lib dated_table list_start_filters)
     = [Debug ''Starting data filtering. Original shape: %s'',
        Debug ''Applied filters: %s'',
        Warning ''Could not parse start_date filter: %s. Error: %s'',
        Debug ''Filtering complete. Final shape: %s'',
        Debug ''Filtered data sample:\<newline>%s'']
   \<and> snd (filter_data sample_lib dated_table list_start_filters)
     = Inr \<lparr>columns = [''distance'', ''date''],
            rows = [no_row(''distance'' := CInt 500, ''date'' := CTime 1640995200000000000)]\<rparr>
   \<and> snd (filter_data sample_lib
          \<lparr>columns = [''distance'', ''date''],
           rows = [no_row(''distance'' := CInt 500, ''date'' := CTime 1640995200000000000)]\<rparr>
          list_start_filters)
     = Inr \<lparr>columns = [''distance'', ''date''], rows = []\<rparr>"
  by (simp add: eval_filter fst_then_do quiet_def dated_table_def list_start_filters_def
      all_filters_def caught_def)

text \<open>
  C8, amended.  Filtering is idempotent for every filter set whose date bounds are not
  lists (each is None or a value of which \<open>pd.to_datetime\<close> makes no
  DatetimeIndex): when \<open>filter_data\<close> returns a table for a table and such a
  filter set, applying it again to the result with the same filter set returns that
  result, row for row.
\<close>

theorem filter_data_idempotent:
  assumes "snd (filter_data L t F) = Inr t'"
    and "scalar_bound L F ''date_start''" and "scalar_bound L F ''date_end''"
  shows "snd (filter_data L t' F) = Inr t'"
proof -
  from assms(1) obtain d1 d2 d3 d4 d5 d6 d7 d8 d9 where
    s1: "multi_select ''year'' ''year'' F t = Inr d1" and
    s2: "multi_select ''airline'' ''airline_name'' F d1 = Inr d2" and
    s3: "multi_select ''destination_airport'' ''dest'' F d2 = Inr d3" and
    s4: "multi_select ''month'' ''month_name'' F d3 = Inr d4" and
    s5: "multi_select ''day_of_week'' ''day_of_week'' F d4 = Inr d5" and
    s6: "multi_select ''time_period'' ''time_period'' F d5 = Inr d6" and
    s7: "multi_select ''delay_category'' ''delay_category'' F d6 = Inr d7" and
    s8: "distance_filter L F d7 = Inr d8" and
    s9: "snd (date_filter ''date_start'' (\<ge>)
               ''Could not parse start_date filter: %s. Error: %s'' L F d8) = Inr d9" and
    s10: "snd (date_filter ''date_end'' (\<le>)
               ''Could not parse end_date filter: %s. Error: %s'' L F d9) = Inr t'"
    unfolding filter_data_Inr by (elim exE conjE)
  note tr = restricted_trans
  have r9: "restricted d9 t'" using s10 by (rule date_filter_restricted)
  have r8: "restricted d8 t'" by (rule tr [OF date_filter_restricted [OF s9] r9])
  have r7: "restricted d7 t'" by (rule tr [OF distance_filter_restricted [OF s8] r8])
  have r6: "restricted d6 t'" by (rule tr [OF multi_select_restricted [OF s7] r7])
  have r5: "restricted d5 t'" by (rule tr [OF multi_select_restricted [OF s6] r6])
  have r4: "restricted d4 t'" by (rule tr [OF multi_select_restricted [OF s5] r5])
  have r3: "restricted d3 t'" by (rule tr [OF multi_select_restricted [OF s4] r4])
  have r2: "restricted d2 t'" by (rule tr [OF multi_select_restricted [OF s3] r3])
  have r1: "restricted d1 t'" by (rule tr [OF multi_select_restricted [OF s2] r2])
  have b9: "bad_dates d9 \<Longrightarrow> bad_dates t'"
    using date_filter_bad [OF _ s10 assms(3)] by simp
  have b8: "bad_dates d8 \<Longrightarrow> bad_dates t'"
    using date_filter_bad [OF _ s9 assms(2)] b9 by simp
  note f1 = multi_select_stable [OF s1 r1]
  note f2 = multi_select_stable [OF s2 r2]
  note f3 = multi_select_stable [OF s3 r3]
  note f4 = multi_select_stable [OF s4 r4]
  note f5 = multi_select_stable [OF s5 r5]
  note f6 = multi_select_stable [OF s6 r6]
  note f7 = multi_select_stable [OF s7 r7]
  note f8 = distance_filter_stable [OF s8 r8]
  note f9 = date_filter_stable [OF s9 r9 b8 assms(2)]
  note f10 = date_filter_stable [OF s10 restricted_refl b9 assms(3)]
  show ?thesis
    unfolding filter_data_Inr
    using f1 f2 f3 f4 f5 f6 f7 f8 f9 f10 by (intro exI [of _ t'] conjI)
qed

theorem filter_data_idempotent_witness:
  "scalar_bound sample_lib all_filters ''date_start''
   \<and> scalar_bound sample_lib all_filters ''date_end''
   \<and> snd (filter_data sample_lib gap_table all_filters) =
     Inr \<lparr>columns = [''year'', ''distance''],
          rows = [no_row(''year'' := CInt 2022, ''distance'' := CInt 500)]\<rparr>
   \<and> snd (filter_data sample_lib
          \<lparr>columns = [''year'', ''distance''],
           rows = [no_row(''year'' := CInt 2022, ''distance'' := CInt 500)]\<rparr> all_filters) =
     Inr \<lparr>columns = [''year'', ''distance''],
          rows = [no_row(''year'' := CInt 2022, ''distance'' := CInt 500)]\<rparr>"
proof -
  have s: "scalar_bound sample_lib all_filters ''date_start''"
    and e: "scalar_bound sample_lib all_filters ''date_end''"
    by (simp_all add: scalar_bound_def all_filters_def)
  from filter_data_idempotent [OF gap_table_filtered s e] gap_table_filtered s e
  show ?thesis by simp
qed

section \<open>The input table is not changed\<close>

text \<open>
  C9.  When \<open>filter_data\<close> returns, every object that was in the store before the call,
  the input table among them, is what it was; the table returned is an object allocated
  during the call, so it is not the input object; and its contents are the result of the
  pipeline on the input table.
\<close>

theorem filter_data_leaves_input:
  assumes "a < length s" and "snd (filter_data_ref L (s, a) F) = Inr (s', a')"
  shows "take (length s) s' = s \<and> s' ! a = s ! a
       \<and> length s \<le> a' \<and> a' < length s' \<and> a' \<noteq> a
       \<and> snd (filter_data L (s ! a) F) = Inr (s' ! a')"
proof -
  define st0 where "st0 = assign_new (s, a) (copy (deref (s, a)))"
  from assms(2) obtain d1 d2 d3 d4 d5 d6 d7 d8 d9 where
    s1: "multi_select_ref ''year'' ''year'' F st0 = Inr d1" and
    s2: "multi_select_ref ''airline'' ''airline_name'' F d1 = Inr d2" and
    s3: "multi_select_ref ''destination_airport'' ''dest'' F d2 = Inr d3" and
    s4: "multi_select_ref ''month'' ''month_name'' F d3 = Inr d4" and
    s5: "multi_select_ref ''day_of_week'' ''day_of_week'' F d4 = Inr d5" and
    s6: "multi_select_ref ''time_period'' ''time_period'' F d5 = Inr d6" and
    s7: "multi_select_ref ''delay_category'' ''delay_category'' F d6 = Inr d7" and
    s8: "distance_filter_ref L F d7 = Inr d8" and
    s9: "snd (date_filter_ref ''date_start'' (\<ge>)
               ''Could not parse start_date filter: %s. Error: %s'' L F d8) = Inr d9" and
    s10: "snd (date_filter_ref ''date_end'' (\<le>)
               ''Could not parse end_date filter: %s. Error: %s'' L F d9) = Inr (s', a')"
    unfolding filter_data_ref_Inr st0_def by (elim exE conjE)
  have v0: "snd st0 < length (fst st0)" by (simp add: st0_def assign_new_def)
  have d0: "deref st0 = s ! a"
    unfolding st0_def deref_assign_new copy_def by (simp add: deref_def)
  note m1 = multi_select_ref_sim [OF s1 v0]
  note v1 = advances_valid [OF m1 [THEN conjunct1]]
  note m2 = multi_select_ref_sim [OF s2 v1]
  note v2 = advances_valid [OF m2 [THEN conjunct1]]
  note m3 = multi_select_ref_sim [OF s3 v2]
  note v3 = advances_valid [OF m3 [THEN conjunct1]]
  note m4 = multi_select_ref_sim [OF s4 v3]
  note v4 = advances_valid [OF m4 [THEN conjunct1]]
  note m5 = multi_select_ref_sim [OF s5 v4]
  note v5 = advances_valid [OF m5 [THEN conjunct1]]
  note m6 = multi_select_ref_sim [OF s6 v5]
  note v6 = advances_valid [OF m6 [THEN conjunct1]]
  note m7 = multi_select_ref_sim [OF s7 v6]
  note v7 = advances_valid [OF m7 [THEN conjunct1]]
  note m8 = distance_filter_ref_sim [OF s8 v7]
  note v8 = advances_valid [OF m8 [THEN conjunct1]]
  note m9 = date_filter_ref_sim [OF s9 v8]
  note v9 = advances_valid [OF m9 [THEN conjunct1]]
  note m10 = date_filter_ref_sim [OF s10 v9]
  note tr = advances_trans
  have adv: "advances st0 (s', a')"
    by (rule tr [OF tr [OF tr [OF tr [OF tr [OF tr [OF tr [OF tr [OF tr
        [OF m1 [THEN conjunct1] m2 [THEN conjunct1]] m3 [THEN conjunct1]]
        m4 [THEN conjunct1]] m5 [THEN conjunct1]] m6 [THEN conjunct1]] m7 [THEN conjunct1]]
        m8 [THEN conjunct1]] m9 [THEN conjunct1]] m10 [THEN conjunct1]])
  then have p: "prefix (s @ [copy (deref (s, a))]) s'" and lt: "a' < length s'"
    and ge: "length s \<le> a'"
    unfolding advances_def st0_def assign_new_def by auto
  from p obtain zs where s': "s' = s @ zs"
    unfolding prefix_def by auto
  have pure: "snd (filter_data L (s ! a) F) = Inr (deref (s', a'))"
    unfolding filter_data_Inr
    using m1 [THEN conjunct2] m2 [THEN conjunct2] m3 [THEN conjunct2] m4 [THEN conjunct2]
      m5 [THEN conjunct2] m6 [THEN conjunct2] m7 [THEN conjunct2] m8 [THEN conjunct2]
      m9 [THEN conjunct2] m10 [THEN conjunct2]
    unfolding d0 by blast
  from s' assms(1) ge lt pure show ?thesis
    by (simp add: nth_append deref_def)
qed

theorem filter_data_leaves_input_witness:
  "snd (filter_data_ref sample_lib ([gap_table], 0) all_filters)
     = Inr ([gap_table, gap_table,
             \<lparr>columns = [''year'', ''distance''],
              rows = [no_row(''year'' := CInt 2022, ''distance'' := CInt 500)]\<rparr>,
             \<lparr>columns = [''year'', ''distance''],
              rows = [no_row(''year'' := CInt 2022, ''distance'' := CInt 500)]\<rparr>], 3)
   \<and> take (length [gap_table])
        (fst ([gap_table, gap_table,
             \<lparr>columns = [''year'', ''distance''],
              rows = [no_row(''year'' := CInt 2022, ''distance'' := CInt 500)]\<rparr>,
             \<lparr>columns = [''year'', ''distance''],
              rows = [no_row(''year'' := CInt 2022, ''distance'' := CInt 500)]\<rparr>], 3::nat))
       = [gap_table]"
proof -
  have r: "snd (filter_data_ref sample_lib ([gap_table], 0) all_filters)
     = Inr ([gap_table, gap_table,
             \<lparr>columns = [''year'', ''distance''],
              rows = [no_row(''year'' := CInt 2022, ''distance'' := CInt 500)]\<rparr>,
             \<lparr>columns = [''year'', ''distance''],
              rows = [no_row(''year'' := CInt 2022, ''distance'' := CInt 500)]\<rparr>], 3)"
    by (simp add: filter_data_ref_def multi_select_ref_def distance_filter_ref_def
        distance_bound_ref_def date_filter_ref_def deref_def assign_new_def eval_filter
        all_filters_def gap_table_def)
  have a: "(0::nat) < length [gap_table]" by simp
  from filter_data_leaves_input [OF a r] r show ?thesis by simp
qed

section \<open>Rows without a distance\<close>

text \<open>
  C10.  When the table has a distance column, no row whose distance is missing is in the
  table that \<open>filter_data\<close> returns, whatever the filter values are: the two range
  comparisons are always applied and a missing distance passes neither.
\<close>

theorem missing_distance_excluded:
  assumes "''distance'' \<in> set (columns t)"
    and "snd (filter_data L t F) = Inr t'"
    and "r ''distance'' = NA"
  shows "r \<notin> set (rows t')"
proof
  assume r: "r \<in> set (rows t')"
  from assms(2) obtain d7 d8 d9 where
    r7: "restricted t d7" and
    s8: "distance_filter L F d7 = Inr d8" and
    s9: "snd (date_filter ''date_start'' (\<ge>)
               ''Could not parse start_date filter: %s. Error: %s'' L F d8) = Inr d9" and
    s10: "snd (date_filter ''date_end'' (\<le>)
               ''Could not parse end_date filter: %s. Error: %s'' L F d9) = Inr t'"
    by (rule filter_data_stages)
  from r7 have col: "''distance'' \<in> set (columns d7)"
    using assms(1) by (simp add: restricted_columns)
  have "restricted d8 t'"
    by (rule restricted_trans [OF date_filter_restricted [OF s9] date_filter_restricted [OF s10]])
  then have "r \<in> set (rows d8)"
    using r restricted_rows by blast
  with col s8 have "r ''distance'' \<noteq> NA"
    by (rule distance_filter_present)
  with assms(3) show False by simp
qed

theorem missing_distance_excluded_witness:
  "''distance'' \<in> set (columns gap_table)
   \<and> (\<exists>t'. snd (filter_data sample_lib gap_table all_filters) = Inr t'
          \<and> (no_row(''year'' := CInt 2023)) \<in> set (rows gap_table)
          \<and> (no_row(''year'' := CInt 2023)) ''distance'' = NA
          \<and> (no_row(''year'' := CInt 2023)) \<notin> set (rows t'))"
proof -
  have c: "''distance'' \<in> set (columns gap_table)"
    by (simp add: gap_table_def)
  have n: "(no_row(''year'' := CInt 2023)) ''distance'' = NA"
    by (simp add: no_row_def)
  have m: "(no_row(''year'' := CInt 2023)) \<in> set (rows gap_table)"
    by (simp add: gap_table_def)
  from missing_distance_excluded
      [where r = "no_row(''year'' := CInt 2023)", OF c gap_table_filtered n]
    c n m gap_table_filtered
  show ?thesis by blast
qed

end
